theory Spec2Isabelle
  imports Main "HOL-Library.Word"
begin

section \<open>Data model\<close>

text \<open>
  The program is \<^verbatim>\<open>integration/nwo/configblock.go\<close>. A Go \<^verbatim>\<open>[]byte\<close> is a list of
  8-bit words; \<^verbatim>\<open>bytes.Equal\<close> is equality of such lists (it does not tell a nil slice
  from an empty one, and neither does a list).
\<close>

type_synonym bytes = "8 word list"

text \<open>
  Modelled from the spec: the generated type \<^verbatim>\<open>etcdraft.Consenter\<close> is not among the
  sources. A consenter record holds a client-facing and a server-facing certificate,
  which the code reads as \<^verbatim>\<open>ClientTlsCert\<close> and \<^verbatim>\<open>ServerTlsCert\<close>, and identifying
  metadata: a host and a port.
\<close>

record Consenter =
  Host :: string
  Port :: "32 word"
  ClientTlsCert :: bytes
  ServerTlsCert :: bytes

text \<open>
  Modelled from the spec: the generated type \<^verbatim>\<open>etcdraft.Metadata\<close> is not among the
  sources. It is the nested sub-document with the repeated list of consenter records,
  which the code reads as \<^verbatim>\<open>Consenters\<close>. Its other field, the options sub-message,
  is read by no function of the program and is kept in its serialized form (\<open>None\<close>
  is the nil pointer).
\<close>

record Metadata =
  Consenters :: "Consenter list"
  Options :: "bytes option"

text \<open>
  Every failed \<^verbatim>\<open>Expect\<close> and every panic ends the calling flow. The constructor says
  which check failed.
\<close>

datatype error =
    DecodeError        \<comment> \<open>\<^verbatim>\<open>proto.Unmarshal\<close> (or a helper that unmarshals) returned an error\<close>
  | SerializationError \<comment> \<open>\<^verbatim>\<open>proto.Marshal\<close> returned an error, or \<^verbatim>\<open>MarshalOrPanic\<close> panicked\<close>
  | NilDereference     \<comment> \<open>a field of a nil pointer was read\<close>
  | IndexOutOfRange    \<comment> \<open>\<^verbatim>\<open>Data[0]\<close> of an empty slice\<close>
  | IOError            \<comment> \<open>\<^verbatim>\<open>TempDir\<close>, \<^verbatim>\<open>WriteFile\<close> or \<^verbatim>\<open>ReadFile\<close> returned an error\<close>
  | ComputeError       \<comment> \<open>\<^verbatim>\<open>update.Compute\<close> returned an error\<close>
  | SessionError       \<comment> \<open>the command could not be started\<close>
  | ExitError          \<comment> \<open>the command did not exit with code 0 within the timeout\<close>
  | SayError           \<comment> \<open>the expected line is not in the command's error output\<close>
  | TimeoutError       \<comment> \<open>the polled value never satisfied the matcher within the timeout\<close>

text \<open>
  Modelled from the spec: the generated type \<^verbatim>\<open>orderer.ConsensusType\<close> is not among
  the sources. It is what the payload of the addressed value decodes to: the name of the
  consensus type and the metadata, which the code reads as \<^verbatim>\<open>Metadata\<close> and hands to
  the mutator as bytes.
\<close>

record ConsensusType =
  Type :: string
  Metadata :: bytes

subsection \<open>The configuration tree\<close>

text \<open>
  Modelled from the spec: the generated types \<^verbatim>\<open>common.ConfigValue\<close>,
  \<^verbatim>\<open>common.ConfigPolicy\<close>, \<^verbatim>\<open>common.ConfigGroup\<close> and \<^verbatim>\<open>common.Config\<close> are not
  among the sources. A value is a binary payload with a modification policy and a
  version; a policy likewise; a group has child groups, values and policies by name, a
  modification policy and a version; a config is a sequence number and the root group.
  A Go map from names to pointers is a partial function; a missing key and a nil entry
  both read as nil, which is \<open>None\<close>.
\<close>

record ConfigValue =
  Version :: "64 word"
  Value :: bytes
  ModPolicy :: string

record ConfigPolicy =
  PolicyVersion :: "64 word"
  Policy :: bytes
  PolicyModPolicy :: string

datatype ConfigGroup =
  ConfigGroup
    (GroupVersion: "64 word")
    (Groups: "string \<Rightarrow> ConfigGroup option")
    (Values: "string \<Rightarrow> ConfigValue option")
    (Policies: "string \<Rightarrow> ConfigPolicy option")
    (GroupModPolicy: string)

record Config =
  Sequence :: "64 word"
  ChannelGroup :: "ConfigGroup option"

text \<open>
  Modelled from the spec: \<^verbatim>\<open>common.ConfigUpdate\<close>, the result of the diff, and
  \<^verbatim>\<open>common.ConfigUpdateEnvelope\<close> are not among the sources. An update is a namespace
  identifier, a read set and a write set; its envelope is the serialized update and a
  list of signatures (each a signature header and a signature).
\<close>

record ConfigUpdate =
  ChannelId :: string
  ReadSet :: "ConfigGroup option"
  WriteSet :: "ConfigGroup option"

record ConfigUpdateEnvelope =
  ConfigUpdate :: bytes
  Signatures :: "(bytes \<times> bytes) list"

subsection \<open>Blocks\<close>

text \<open>
  Modelled from the spec: the generated types \<^verbatim>\<open>common.Block\<close>, \<^verbatim>\<open>common.Envelope\<close>,
  \<^verbatim>\<open>common.Payload\<close> and \<^verbatim>\<open>common.ConfigEnvelope\<close> are not among the sources, and
  the spec leaves the ledger's blocks to a collaborator that gives the current config
  and its version. The fields are those the code reads: the number in a block's header,
  the first entry of its data (the \<^verbatim>\<open>Data\<close> slice of \<^verbatim>\<open>BlockData\<close>), a payload's
  data and a config envelope's config. \<open>None\<close> is a nil pointer.
\<close>

record BlockHeader =
  Number :: "64 word"
  PreviousHash :: bytes
  DataHash :: bytes

record Block =
  Header :: "BlockHeader option"
  Data :: "bytes list option"

record Envelope =
  Payload :: bytes
  Signature :: bytes

record Payload =
  Header :: bytes
  Data :: bytes

record ConfigEnvelope =
  Config :: "Config option"
  LastUpdate :: "Envelope option"

subsection \<open>The signed envelope\<close>

text \<open>
  Modelled from the spec: the enumeration \<^verbatim>\<open>common.HeaderType\<close> is not among the
  sources. It is the type tag of a header; the flows use \<^verbatim>\<open>CONFIG_UPDATE\<close>.
\<close>

datatype HeaderType =
    HeaderType_MESSAGE
  | HeaderType_CONFIG
  | HeaderType_CONFIG_UPDATE
  | HeaderType_ENDORSER_TRANSACTION
  | HeaderType_ORDERER_TRANSACTION
  | HeaderType_DELIVER_SEEK_INFO
  | HeaderType_CHAINCODE_PACKAGE

text \<open>
  Modelled from the spec: \<^verbatim>\<open>utils.CreateSignedEnvelope\<close> and the type it returns are
  not among the sources. The spec's signed envelope is the serialized update, a header
  (namespace identifier, type tag, version, epoch) and an ordered list of (identity,
  signature) pairs. The header's timestamp comes from the clock, which the builder is
  not handed, and is left out.
\<close>

record EnvelopeHeader =
  TypeTag :: HeaderType
  NamespaceId :: string
  MsgVersion :: "32 word"
  Epoch :: "64 word"

record SignedEnvelope =
  EnvHeader :: EnvelopeHeader
  Update :: bytes
  EnvSignatures :: "(string \<times> bytes) list"

section \<open>Library functions the program calls\<close>

text \<open>
  \<^verbatim>\<open>proto.Unmarshal\<close>, \<^verbatim>\<open>proto.Marshal\<close>, the helpers of \<^verbatim>\<open>protos/utils\<close> that
  unmarshal, \<^verbatim>\<open>update.Compute\<close> and the signing capability are not among the sources:
  they are parameters of the model, one field for each message type the program uses
  them at. \<open>None\<close> is a non-nil error (for \<^verbatim>\<open>MarshalOrPanic\<close>, the panic).
\<close>

record externals =
  Unmarshal_Metadata :: "bytes \<Rightarrow> Metadata option"
  Marshal_Metadata :: "Metadata \<Rightarrow> bytes option"
  Unmarshal_ConsensusType :: "bytes \<Rightarrow> ConsensusType option"
  Marshal_ConsensusType :: "ConsensusType \<Rightarrow> bytes option"
  UnmarshalBlock :: "bytes \<Rightarrow> Block option"
  GetEnvelopeFromBlock :: "bytes \<Rightarrow> Envelope option"
  GetPayload :: "Envelope \<Rightarrow> Payload option"
  Unmarshal_ConfigEnvelope :: "bytes \<Rightarrow> ConfigEnvelope option"
  Compute :: "Config \<Rightarrow> Config \<Rightarrow> ConfigUpdate option"
  Marshal_ConfigUpdate :: "ConfigUpdate \<Rightarrow> bytes option"
  Marshal_ConfigUpdateEnvelope :: "ConfigUpdateEnvelope \<Rightarrow> bytes option"
  Marshal_Envelope :: "SignedEnvelope \<Rightarrow> bytes option"
  Sign :: "string \<Rightarrow> bytes \<Rightarrow> bytes option"

text \<open>
  What the theorems on the mutators ask of the metadata codec: decoding inverts
  encoding, what was decoded can be encoded again, and a message stays encodable when
  consenters are taken out of it.
\<close>

definition codec_laws :: "externals \<Rightarrow> bool" where
  "codec_laws lib \<longleftrightarrow>
     (\<forall>m b. Marshal_Metadata lib m = Some b \<longrightarrow> Unmarshal_Metadata lib b = Some m) \<and>
     (\<forall>b m. Unmarshal_Metadata lib b = Some m \<longrightarrow> Marshal_Metadata lib m \<noteq> None) \<and>
     (\<forall>m cs. Marshal_Metadata lib m \<noteq> None \<and> set cs \<subseteq> set (Consenters m) \<longrightarrow>
        Marshal_Metadata lib (m\<lparr>Consenters := cs\<rparr>) \<noteq> None)"

section \<open>The metadata mutators\<close>

text \<open>\<^verbatim>\<open>ConsensusMetadataMutator\<close>: a function on bytes whose \<^verbatim>\<open>Expect\<close>s may fail.\<close>

type_synonym ConsensusMetadataMutator = "bytes \<Rightarrow> error + bytes"

text \<open>The closure that \<^verbatim>\<open>AddConsenter\<close> passes to \<^verbatim>\<open>UpdateConsensusMetadata\<close>.\<close>

definition AddConsenter_mutator :: "externals \<Rightarrow> Consenter \<Rightarrow> ConsensusMetadataMutator" where
  "AddConsenter_mutator lib consenter originalMetadata =
     (case Unmarshal_Metadata lib originalMetadata of
        None \<Rightarrow> Inl DecodeError
      | Some metadata \<Rightarrow>
          (case Marshal_Metadata lib (metadata\<lparr>Consenters := Consenters metadata @ [consenter]\<rparr>) of
             None \<Rightarrow> Inl SerializationError
           | Some newMetadata \<Rightarrow> Inr newMetadata))"

text \<open>
  The loop of \<^verbatim>\<open>RemoveConsenter\<close>: \<open>newConsenters\<close> is the slice built so far, the
  second argument what is left of \<^verbatim>\<open>metadata.Consenters\<close>.
\<close>

fun remove_loop :: "bytes \<Rightarrow> Consenter list \<Rightarrow> Consenter list \<Rightarrow> Consenter list" where
  "remove_loop certificate [] newConsenters = newConsenters"
| "remove_loop certificate (consenter # rest) newConsenters =
     (if ClientTlsCert consenter = certificate \<or> ServerTlsCert consenter = certificate
      then remove_loop certificate rest newConsenters
      else remove_loop certificate rest (newConsenters @ [consenter]))"

text \<open>The closure that \<^verbatim>\<open>RemoveConsenter\<close> passes to \<^verbatim>\<open>UpdateConsensusMetadata\<close>.\<close>

definition RemoveConsenter_mutator :: "externals \<Rightarrow> bytes \<Rightarrow> ConsensusMetadataMutator" where
  "RemoveConsenter_mutator lib certificate originalMetadata =
     (case Unmarshal_Metadata lib originalMetadata of
        None \<Rightarrow> Inl DecodeError
      | Some metadata \<Rightarrow>
          (case Marshal_Metadata lib
                  (metadata\<lparr>Consenters := remove_loop certificate (Consenters metadata) []\<rparr>) of
             None \<Rightarrow> Inl SerializationError
           | Some newMetadata \<Rightarrow> Inr newMetadata))"

section \<open>The network, the file system and the heap\<close>

text \<open>
  Modelled from the spec: the types \<^verbatim>\<open>Peer\<close>, \<^verbatim>\<open>Orderer\<close> and \<^verbatim>\<open>Network\<close> of the
  package and the commands of \<^verbatim>\<open>nwo/commands\<close> are not among the sources. The spec
  has them as collaborators: signing identities, a ledger to query, a service to submit
  to. A peer and an orderer carry a name and an organization; the flows only hand them
  on.
\<close>

datatype Peer = Peer string string

datatype Orderer = Orderer string string

text \<open>The commands of \<^verbatim>\<open>nwo/commands\<close> that the flows run, with their fields in order.\<close>

datatype command =
    ChannelFetch string string string string  \<comment> \<open>ChannelID, Block, Orderer, OutputFile\<close>
  | SignConfigTx string                       \<comment> \<open>File\<close>
  | ChannelUpdate string string string        \<comment> \<open>ChannelID, Orderer, File\<close>

text \<open>
  What a started command gives by the end of \<^verbatim>\<open>n.EventuallyTimeout\<close>: its exit code,
  if it has exited, and its error output.
\<close>

record session =
  ExitCode :: "int option"
  Err :: string

datatype actor = PeerAdmin Peer | OrdererAdmin Orderer Peer

text \<open>
  The log of a flow: the trees handed to the diff, the envelope built, every command
  started, with what came of it, and every block number read.
\<close>

datatype event =
    Computed Config Config
  | Built SignedEnvelope
  | Session actor command "session option"
  | Observed "64 word"

text \<open>
  The network \<^verbatim>\<open>n\<close>. Its processes and ledger, and the file system they share with the
  flows, are a world of type \<open>'w\<close>; a call is a function from the world to an answer
  and the next world. \<open>None\<close> is a non-nil error, \<open>False\<close> a failed write.
  \<open>EventuallyTimeout\<close> counts the polls that fit in the timeout after the first one.
\<close>

record 'w Network =
  EventuallyTimeout :: nat
  OrdererAddress :: "Orderer \<Rightarrow> string"
  PeerAdminSession :: "Peer \<Rightarrow> command \<Rightarrow> 'w \<Rightarrow> session option \<times> 'w"
  OrdererAdminSession :: "Orderer \<Rightarrow> Peer \<Rightarrow> command \<Rightarrow> 'w \<Rightarrow> session option \<times> 'w"
  TempDir :: "string \<Rightarrow> 'w \<Rightarrow> string option \<times> 'w"
  WriteFile :: "string \<Rightarrow> bytes \<Rightarrow> 'w \<Rightarrow> bool \<times> 'w"
  ReadFile :: "string \<Rightarrow> 'w \<Rightarrow> bytes option \<times> 'w"
  RemoveAll :: "string \<Rightarrow> 'w \<Rightarrow> 'w"

text \<open>
  A \<^verbatim>\<open>*common.Config\<close> is an address in the heap or nil. \<^verbatim>\<open>proto.Clone\<close> returns a
  deep copy, so no two configs share a part, and a cell of the heap holds a whole tree.
\<close>

record 'w state =
  world :: 'w
  heap :: "Config list"

type_synonym ('a, 'w) flow = "'w state \<Rightarrow> (error + 'a) \<times> 'w state \<times> event list"

definition ret :: "'a \<Rightarrow> ('a, 'w) flow" where
  "ret x s = (Inr x, s, [])"

definition fail :: "error \<Rightarrow> ('a, 'w) flow" where
  "fail e s = (Inl e, s, [])"

text \<open>Sequencing: a failure ends the flow, with the state and the log as they are.\<close>

definition bind :: "('a, 'w) flow \<Rightarrow> ('a \<Rightarrow> ('b, 'w) flow) \<Rightarrow> ('b, 'w) flow" where
  "bind f g s =
     (case f s of
        (Inl e, s1, t1) \<Rightarrow> (Inl e, s1, t1)
      | (Inr x, s1, t1) \<Rightarrow> (case g x s1 of (r, s2, t2) \<Rightarrow> (r, s2, t1 @ t2)))"

definition emit :: "event \<Rightarrow> (unit, 'w) flow" where
  "emit ev s = (Inr (), s, [ev])"

text \<open>\<^verbatim>\<open>Expect(err).NotTo(HaveOccurred())\<close> on a result that comes with an error.\<close>

definition expect :: "error \<Rightarrow> 'a option \<Rightarrow> ('a, 'w) flow" where
  "expect e r = (case r of None \<Rightarrow> fail e | Some x \<Rightarrow> ret x)"

definition call :: "('w \<Rightarrow> 'a \<times> 'w) \<Rightarrow> ('a, 'w) flow" where
  "call f s = (case f (world s) of (x, w) \<Rightarrow> (Inr x, s\<lparr>world := w\<rparr>, []))"

text \<open>\<^verbatim>\<open>defer\<close>: the cleanup runs when the body is left, whether it returned or failed.\<close>

definition deferred :: "('w \<Rightarrow> 'w) \<Rightarrow> ('a, 'w) flow \<Rightarrow> ('a, 'w) flow" where
  "deferred cleanup body s =
     (case body s of (r, s1, t1) \<Rightarrow> (r, s1\<lparr>world := cleanup (world s1)\<rparr>, t1))"

definition filepath_Join :: "string \<Rightarrow> string \<Rightarrow> string" where
  "filepath_Join dir name = dir @ ''/'' @ name"

text \<open>Starting a command as a peer's or an orderer's admin; the log keeps the outcome.\<close>

definition peerAdminSession :: "'w Network \<Rightarrow> Peer \<Rightarrow> command \<Rightarrow> (session, 'w) flow" where
  "peerAdminSession n p c =
     bind (call (PeerAdminSession n p c)) (\<lambda>r.
     bind (emit (Session (PeerAdmin p) c r)) (\<lambda>_.
     expect SessionError r))"

definition ordererAdminSession ::
  "'w Network \<Rightarrow> Orderer \<Rightarrow> Peer \<Rightarrow> command \<Rightarrow> (session, 'w) flow" where
  "ordererAdminSession n orderer p c =
     bind (call (OrdererAdminSession n orderer p c)) (\<lambda>r.
     bind (emit (Session (OrdererAdmin orderer p) c r)) (\<lambda>_.
     expect SessionError r))"

text \<open>\<^verbatim>\<open>Eventually(sess, n.EventuallyTimeout).Should(gexec.Exit(code))\<close>.\<close>

definition Eventually_Exit :: "session \<Rightarrow> int \<Rightarrow> (unit, 'w) flow" where
  "Eventually_Exit sess code = (if ExitCode sess = Some code then ret () else fail ExitError)"

text \<open>\<^verbatim>\<open>gbytes.Say\<close> of a literal: the text occurs in the buffer.\<close>

fun Say :: "string \<Rightarrow> string \<Rightarrow> bool" where
  "Say pat [] = (pat = [])"
| "Say pat (c # cs) = (take (length pat) (c # cs) = pat \<or> Say pat cs)"

definition Expect_Say :: "string \<Rightarrow> string \<Rightarrow> (unit, 'w) flow" where
  "Expect_Say buffer pat = (if Say pat buffer then ret () else fail SayError)"

text \<open>
  Reading and writing through a pointer; a nil pointer panics. Go has no dangling
  pointers: an address that the heap does not have is treated like nil.
\<close>

definition deref :: "nat option \<Rightarrow> (Config, 'w) flow" where
  "deref p s =
     (case p of
        None \<Rightarrow> (Inl NilDereference, s, [])
      | Some a \<Rightarrow> if a < length (heap s) then (Inr (heap s ! a), s, [])
                  else (Inl NilDereference, s, []))"

definition alloc :: "Config \<Rightarrow> (nat, 'w) flow" where
  "alloc c s = (Inr (length (heap s)), s\<lparr>heap := heap s @ [c]\<rparr>, [])"

definition store :: "nat option \<Rightarrow> Config \<Rightarrow> (unit, 'w) flow" where
  "store p c s =
     (case p of
        None \<Rightarrow> (Inl NilDereference, s, [])
      | Some a \<Rightarrow> if a < length (heap s) then (Inr (), s\<lparr>heap := (heap s)[a := c]\<rparr>, [])
                  else (Inl NilDereference, s, []))"

text \<open>The result of a call that touches neither the world nor the heap.\<close>

definition returned :: "error + 'a \<Rightarrow> ('a, 'w) flow" where
  "returned r s = (r, s, [])"

text \<open>\<^verbatim>\<open>proto.Clone\<close>: nil for nil, else a fresh copy.\<close>

definition Clone :: "nat option \<Rightarrow> (nat option, 'w) flow" where
  "Clone p =
     (case p of
        None \<Rightarrow> ret None
      | Some a \<Rightarrow> bind (deref (Some a)) (\<lambda>c. bind (alloc c) (\<lambda>a'. ret (Some a'))))"

section \<open>Fetching the configuration\<close>

definition UnmarshalBlockFromFile :: "externals \<Rightarrow> 'w Network \<Rightarrow> string \<Rightarrow> (Block, 'w) flow" where
  "UnmarshalBlockFromFile lib n blockFile =
     bind (call (ReadFile n blockFile)) (\<lambda>r.
     bind (expect IOError r) (\<lambda>blockBytes.
     expect DecodeError (UnmarshalBlock lib blockBytes)))"

definition GetConfigBlock ::
  "externals \<Rightarrow> 'w Network \<Rightarrow> Peer \<Rightarrow> Orderer \<Rightarrow> string \<Rightarrow> (Block, 'w) flow" where
  "GetConfigBlock lib n peer orderer channel =
     bind (call (TempDir n ''getConfigBlock'')) (\<lambda>r.
     bind (expect IOError r) (\<lambda>tempDir.
     deferred (RemoveAll n tempDir)
       (bind (peerAdminSession n peer
                (ChannelFetch channel ''config'' (OrdererAddress n orderer)
                   (filepath_Join tempDir ''config_block.pb''))) (\<lambda>sess.
        bind (Eventually_Exit sess 0) (\<lambda>_.
        bind (Expect_Say (Err sess) ''Received block: '') (\<lambda>_.
        UnmarshalBlockFromFile lib n (filepath_Join tempDir ''config_block.pb'')))))))"

text \<open>
  \<^verbatim>\<open>GetConfig\<close> returns the pointer \<^verbatim>\<open>configEnv.Config\<close>: nil, or the address of the
  config that was unmarshalled.
\<close>

definition GetConfig ::
  "externals \<Rightarrow> 'w Network \<Rightarrow> Peer \<Rightarrow> Orderer \<Rightarrow> string \<Rightarrow> (nat option, 'w) flow" where
  "GetConfig lib n peer orderer channel =
     bind (GetConfigBlock lib n peer orderer channel) (\<lambda>configBlock.
     bind (expect NilDereference (Block.Data configBlock)) (\<lambda>blockData.
     bind (case blockData of [] \<Rightarrow> fail IndexOutOfRange | d # _ \<Rightarrow> ret d) (\<lambda>data0.
     bind (expect DecodeError (GetEnvelopeFromBlock lib data0)) (\<lambda>envelope.
     bind (expect DecodeError (GetPayload lib envelope)) (\<lambda>payload.
     bind (expect DecodeError (Unmarshal_ConfigEnvelope lib (Payload.Data payload))) (\<lambda>configEnv.
       (case Config configEnv of
          None \<Rightarrow> ret None
        | Some c \<Rightarrow> bind (alloc c) (\<lambda>a. ret (Some a)))))))))"

definition CurrentConfigBlockNumber ::
  "externals \<Rightarrow> 'w Network \<Rightarrow> Peer \<Rightarrow> Orderer \<Rightarrow> string \<Rightarrow> (64 word, 'w) flow" where
  "CurrentConfigBlockNumber lib n peer orderer channel =
     bind (call (TempDir n ''currentConfigBlock'')) (\<lambda>r.
     bind (expect IOError r) (\<lambda>tempDir.
     deferred (RemoveAll n tempDir)
       (bind (peerAdminSession n peer
                (ChannelFetch channel ''config'' (OrdererAddress n orderer)
                   (filepath_Join tempDir ''config_block.pb''))) (\<lambda>sess.
        bind (Eventually_Exit sess 0) (\<lambda>_.
        bind (Expect_Say (Err sess) ''Received block: '') (\<lambda>_.
        bind (UnmarshalBlockFromFile lib n (filepath_Join tempDir ''config_block.pb'')) (\<lambda>configBlock.
        bind (expect NilDereference (Block.Header configBlock)) (\<lambda>header.
        bind (emit (Observed (Number header))) (\<lambda>_.
        ret (Number header))))))))))"

section \<open>Signing, submitting and waiting\<close>

text \<open>
  Modelled from the spec: \<^verbatim>\<open>utils.CreateSignedEnvelope\<close> is not among the sources. The
  builder serializes the message it is given, stamps the header fields and produces the
  first signature from the signer; it fails when the message cannot be serialized or the
  signer cannot sign. Both callers pass nil for the signer: then nobody signs, and the
  list of signatures is empty.
\<close>

definition CreateSignedEnvelope ::
  "externals \<Rightarrow> HeaderType \<Rightarrow> string \<Rightarrow> string option \<Rightarrow> ConfigUpdateEnvelope \<Rightarrow>
     32 word \<Rightarrow> 64 word \<Rightarrow> SignedEnvelope option" where
  "CreateSignedEnvelope lib txType channelID signer dataMsg msgVersion epoch =
     (case Marshal_ConfigUpdateEnvelope lib dataMsg of
        None \<Rightarrow> None
      | Some data \<Rightarrow>
          (case signer of
             None \<Rightarrow>
               Some \<lparr>EnvHeader = \<lparr>TypeTag = txType, NamespaceId = channelID,
                                   MsgVersion = msgVersion, Epoch = epoch\<rparr>,
                     Update = data, EnvSignatures = []\<rparr>
           | Some identity \<Rightarrow>
               (case Sign lib identity data of
                  None \<Rightarrow> None
                | Some signature \<Rightarrow>
                    Some \<lparr>EnvHeader = \<lparr>TypeTag = txType, NamespaceId = channelID,
                                        MsgVersion = msgVersion, Epoch = epoch\<rparr>,
                          Update = data, EnvSignatures = [(identity, signature)]\<rparr>)))"

text \<open>
  Lines 78 to 96 and 128 to 146, the same in \<^verbatim>\<open>UpdateConfig\<close> and
  \<^verbatim>\<open>UpdateOrdererConfig\<close>: compute the update, build the envelope and write it to the
  update file. \<^verbatim>\<open>update.Compute\<close> reads its two arguments, so a nil one panics. The
  builder returns an envelope or an error, so the check that the envelope is not nil
  cannot fail.
\<close>

definition write_update ::
  "externals \<Rightarrow> 'w Network \<Rightarrow> string \<Rightarrow> nat option \<Rightarrow> nat option \<Rightarrow> string \<Rightarrow> (unit, 'w) flow" where
  "write_update lib n channel current updated updateFile =
     bind (deref current) (\<lambda>cur.
     bind (deref updated) (\<lambda>upd.
     bind (emit (Computed cur upd)) (\<lambda>_.
     bind (expect ComputeError (Compute lib cur upd)) (\<lambda>configUpdate.
     bind (expect SerializationError
             (Marshal_ConfigUpdate lib (configUpdate\<lparr>ChannelId := channel\<rparr>))) (\<lambda>updateBytes.
     bind (expect SerializationError
             (CreateSignedEnvelope lib HeaderType_CONFIG_UPDATE channel None
                \<lparr>ConfigUpdate = updateBytes, Signatures = []\<rparr> 0 0)) (\<lambda>signedEnvelope.
     bind (emit (Built signedEnvelope)) (\<lambda>_.
     bind (expect SerializationError (Marshal_Envelope lib signedEnvelope)) (\<lambda>envelopeBytes.
     bind (call (WriteFile n updateFile envelopeBytes)) (\<lambda>ok.
     if ok then ret () else fail IOError)))))))))"

text \<open>The loop over \<^verbatim>\<open>additionalSigners\<close> of \<^verbatim>\<open>UpdateConfig\<close>.\<close>

fun sign_as_peers :: "'w Network \<Rightarrow> string \<Rightarrow> Peer list \<Rightarrow> (unit, 'w) flow" where
  "sign_as_peers n updateFile [] = ret ()"
| "sign_as_peers n updateFile (signer # rest) =
     bind (peerAdminSession n signer (SignConfigTx updateFile)) (\<lambda>sess.
     bind (Eventually_Exit sess 0) (\<lambda>_.
     sign_as_peers n updateFile rest))"

text \<open>The loop over \<^verbatim>\<open>additionalSigners\<close> of \<^verbatim>\<open>UpdateOrdererConfig\<close>.\<close>

fun sign_as_orderers :: "'w Network \<Rightarrow> string \<Rightarrow> Peer \<Rightarrow> Orderer list \<Rightarrow> (unit, 'w) flow" where
  "sign_as_orderers n updateFile submitter [] = ret ()"
| "sign_as_orderers n updateFile submitter (signer # rest) =
     bind (ordererAdminSession n signer submitter (SignConfigTx updateFile)) (\<lambda>sess.
     bind (Eventually_Exit sess 0) (\<lambda>_.
     sign_as_orderers n updateFile submitter rest))"

text \<open>
  \<^verbatim>\<open>Eventually(ccb, n.EventuallyTimeout).Should(BeNumerically(">", currentBlockNumber))\<close>:
  the function is polled once, and then as often again as fits in the timeout, until it
  returns a greater number. A failed \<^verbatim>\<open>Expect\<close> inside the polled function ends the
  flow.
\<close>

fun Eventually_greater :: "(64 word, 'w) flow \<Rightarrow> nat \<Rightarrow> 64 word \<Rightarrow> (unit, 'w) flow" where
  "Eventually_greater ccb 0 currentBlockNumber =
     bind ccb (\<lambda>v. if currentBlockNumber < v then ret () else fail TimeoutError)"
| "Eventually_greater ccb (Suc polls) currentBlockNumber =
     bind ccb (\<lambda>v. if currentBlockNumber < v then ret ()
                    else Eventually_greater ccb polls currentBlockNumber)"

text \<open>
  Lines 104 to 118 and 154 to 168, the same in both flows: read the current block
  number, submit the update file, and wait for a greater block number.
\<close>

definition submit_and_wait ::
  "externals \<Rightarrow> 'w Network \<Rightarrow> Orderer \<Rightarrow> string \<Rightarrow> Peer \<Rightarrow> string \<Rightarrow> (unit, 'w) flow" where
  "submit_and_wait lib n orderer channel submitter updateFile =
     bind (CurrentConfigBlockNumber lib n submitter orderer channel) (\<lambda>currentBlockNumber.
     bind (peerAdminSession n submitter
             (ChannelUpdate channel (OrdererAddress n orderer) updateFile)) (\<lambda>sess.
     bind (Eventually_Exit sess 0) (\<lambda>_.
     bind (Expect_Say (Err sess) ''Successfully submitted channel update'') (\<lambda>_.
     Eventually_greater (CurrentConfigBlockNumber lib n submitter orderer channel)
       (EventuallyTimeout n) currentBlockNumber))))"

definition UpdateConfig ::
  "externals \<Rightarrow> 'w Network \<Rightarrow> Orderer \<Rightarrow> string \<Rightarrow> nat option \<Rightarrow> nat option \<Rightarrow> Peer \<Rightarrow>
     Peer list \<Rightarrow> (unit, 'w) flow" where
  "UpdateConfig lib n orderer channel current updated submitter additionalSigners =
     bind (call (TempDir n ''updateConfig'')) (\<lambda>r.
     bind (expect IOError r) (\<lambda>tempDir.
     deferred (RemoveAll n tempDir)
       (bind (write_update lib n channel current updated
                (filepath_Join tempDir ''update.pb'')) (\<lambda>_.
        bind (sign_as_peers n (filepath_Join tempDir ''update.pb'') additionalSigners) (\<lambda>_.
        submit_and_wait lib n orderer channel submitter
          (filepath_Join tempDir ''update.pb''))))))"

definition UpdateOrdererConfig ::
  "externals \<Rightarrow> 'w Network \<Rightarrow> Orderer \<Rightarrow> string \<Rightarrow> nat option \<Rightarrow> nat option \<Rightarrow> Peer \<Rightarrow>
     Orderer list \<Rightarrow> (unit, 'w) flow" where
  "UpdateOrdererConfig lib n orderer channel current updated submitter additionalSigners =
     bind (call (TempDir n ''updateConfig'')) (\<lambda>r.
     bind (expect IOError r) (\<lambda>tempDir.
     deferred (RemoveAll n tempDir)
       (bind (write_update lib n channel current updated
                (filepath_Join tempDir ''update.pb'')) (\<lambda>_.
        bind (sign_as_orderers n (filepath_Join tempDir ''update.pb'') submitter
                additionalSigners) (\<lambda>_.
        submit_and_wait lib n orderer channel submitter
          (filepath_Join tempDir ''update.pb''))))))"

section \<open>Updating the consensus metadata\<close>

text \<open>
  Line 258: the assignment to \<^verbatim>\<open>Values["ConsensusType"]\<close> of the \<^verbatim>\<open>Orderer\<close> group
  of a config's channel group. Reading a field of a nil group panics (\<open>None\<close>). The
  flow has read the old value from this map on line 251, so the map is not nil.
\<close>

definition set_ConsensusType :: "ConfigValue \<Rightarrow> Config \<Rightarrow> Config option" where
  "set_ConsensusType v c =
     (case ChannelGroup c of
        None \<Rightarrow> None
      | Some cg \<Rightarrow>
          (case Groups cg ''Orderer'' of
             None \<Rightarrow> None
           | Some og \<Rightarrow>
               Some (c\<lparr>ChannelGroup := Some (ConfigGroup (GroupVersion cg)
                    ((Groups cg)(''Orderer'' \<mapsto> ConfigGroup (GroupVersion og) (Groups og)
                        ((Values og)(''ConsensusType'' \<mapsto> v)) (Policies og) (GroupModPolicy og)))
                    (Values cg) (Policies cg) (GroupModPolicy cg))\<rparr>)))"

definition UpdateConsensusMetadata ::
  "externals \<Rightarrow> 'w Network \<Rightarrow> Peer \<Rightarrow> Orderer \<Rightarrow> string \<Rightarrow> ConsensusMetadataMutator \<Rightarrow>
     (unit, 'w) flow" where
  "UpdateConsensusMetadata lib network peer orderer channel mutateMetadata =
     bind (GetConfig lib network peer orderer channel) (\<lambda>config.
     bind (Clone config) (\<lambda>updatedConfig.
     bind (deref updatedConfig) (\<lambda>c.
     bind (expect NilDereference (ChannelGroup c)) (\<lambda>channelGroup.
     bind (expect NilDereference (Groups channelGroup ''Orderer'')) (\<lambda>ordererGroup.
     bind (expect NilDereference (Values ordererGroup ''ConsensusType'')) (\<lambda>consensusTypeConfigValue.
     bind (expect DecodeError
             (Unmarshal_ConsensusType lib (Value consensusTypeConfigValue))) (\<lambda>consensusTypeValue.
     bind (returned (mutateMetadata (Metadata consensusTypeValue))) (\<lambda>newMetadata.
     bind (expect SerializationError
             (Marshal_ConsensusType lib (consensusTypeValue\<lparr>Metadata := newMetadata\<rparr>))) (\<lambda>v.
     bind (deref updatedConfig) (\<lambda>c'.
     bind (expect NilDereference
             (set_ConsensusType \<lparr>Version = 0, Value = v, ModPolicy = ''Admins''\<rparr> c')) (\<lambda>c''.
     bind (store updatedConfig c'') (\<lambda>_.
     UpdateOrdererConfig lib network orderer channel config updatedConfig peer
       [orderer]))))))))))))"

definition AddConsenter ::
  "externals \<Rightarrow> 'w Network \<Rightarrow> Peer \<Rightarrow> Orderer \<Rightarrow> string \<Rightarrow> Consenter \<Rightarrow> (unit, 'w) flow" where
  "AddConsenter lib n peer orderer channel consenter =
     UpdateConsensusMetadata lib n peer orderer channel (AddConsenter_mutator lib consenter)"

definition RemoveConsenter ::
  "externals \<Rightarrow> 'w Network \<Rightarrow> Peer \<Rightarrow> Orderer \<Rightarrow> string \<Rightarrow> bytes \<Rightarrow> (unit, 'w) flow" where
  "RemoveConsenter lib n peer orderer channel certificate =
     UpdateConsensusMetadata lib n peer orderer channel
       (RemoveConsenter_mutator lib certificate)"

section \<open>A reference codec and a reference network\<close>

text \<open>
  An instance of the parameters, on which the flows can be run: a wire format of
  length-prefixed nested records for the consenter metadata, with lengths and numbers as
  base-128 varints, and a network of one ledger whose config block number goes up by one
  with every submitted update. Two things go wrong on it: the channel \<^verbatim>\<open>frozen\<close>
  commits nothing, and a peer of the organization \<^verbatim>\<open>revoked\<close> cannot sign.
\<close>

fun put_uvarint :: "nat \<Rightarrow> bytes" where
  "put_uvarint n =
     (if n < 128 then [of_nat n] else of_nat (128 + n mod 128) # put_uvarint (n div 128))"

declare put_uvarint.simps [simp del]

fun get_uvarint :: "bytes \<Rightarrow> (nat \<times> bytes) option" where
  "get_uvarint [] = None"
| "get_uvarint (b # bs) =
     (if b < 128 then Some (unat b, bs)
      else (case get_uvarint bs of
              None \<Rightarrow> None
            | Some (m, rest) \<Rightarrow> Some (unat b - 128 + 128 * m, rest)))"

definition put_bytes :: "bytes \<Rightarrow> bytes" where
  "put_bytes bs = put_uvarint (length bs) @ bs"

definition get_bytes :: "bytes \<Rightarrow> (bytes \<times> bytes) option" where
  "get_bytes input =
     (case get_uvarint input of
        None \<Rightarrow> None
      | Some (n, rest) \<Rightarrow>
          if n \<le> length rest then Some (take n rest, drop n rest) else None)"

definition put_Consenter :: "Consenter \<Rightarrow> bytes" where
  "put_Consenter c =
     put_bytes (map (\<lambda>ch. of_nat (of_char ch)) (Host c)) @ put_uvarint (unat (Port c)) @
     put_bytes (ClientTlsCert c) @ put_bytes (ServerTlsCert c)"

definition get_Consenter :: "bytes \<Rightarrow> (Consenter \<times> bytes) option" where
  "get_Consenter input =
     (case get_bytes input of None \<Rightarrow> None | Some (h, r1) \<Rightarrow>
      case get_uvarint r1 of None \<Rightarrow> None | Some (p, r2) \<Rightarrow>
      case get_bytes r2 of None \<Rightarrow> None | Some (cc, r3) \<Rightarrow>
      case get_bytes r3 of None \<Rightarrow> None | Some (sc, r4) \<Rightarrow>
        if p < 2 ^ 32
        then Some (\<lparr>Host = map (\<lambda>w. char_of (unat w)) h, Port = of_nat p,
                     ClientTlsCert = cc, ServerTlsCert = sc\<rparr>, r4)
        else None)"

fun put_Consenters :: "Consenter list \<Rightarrow> bytes" where
  "put_Consenters [] = []"
| "put_Consenters (c # cs) = put_Consenter c @ put_Consenters cs"

fun get_Consenters :: "nat \<Rightarrow> bytes \<Rightarrow> (Consenter list \<times> bytes) option" where
  "get_Consenters 0 input = Some ([], input)"
| "get_Consenters (Suc k) input =
     (case get_Consenter input of None \<Rightarrow> None | Some (c, r1) \<Rightarrow>
      case get_Consenters k r1 of None \<Rightarrow> None | Some (cs, r2) \<Rightarrow> Some (c # cs, r2))"

definition put_Metadata :: "Metadata \<Rightarrow> bytes" where
  "put_Metadata m =
     put_uvarint (length (Consenters m)) @ put_Consenters (Consenters m) @
     (case Options m of None \<Rightarrow> [0] | Some opts \<Rightarrow> 1 # put_bytes opts)"

definition get_Metadata :: "bytes \<Rightarrow> Metadata option" where
  "get_Metadata input =
     (case get_uvarint input of None \<Rightarrow> None | Some (k, r1) \<Rightarrow>
      case get_Consenters k r1 of None \<Rightarrow> None | Some (cs, r2) \<Rightarrow>
      case r2 of
        [] \<Rightarrow> None
      | flag # r3 \<Rightarrow>
          if flag = 0
          then (if r3 = [] then Some \<lparr>Consenters = cs, Options = None\<rparr> else None)
          else if flag = 1
          then (case get_bytes r3 of
                  None \<Rightarrow> None
                | Some (opts, r4) \<Rightarrow>
                    if r4 = [] then Some \<lparr>Consenters = cs, Options = Some opts\<rparr> else None)
          else None)"

text \<open>
  A config whose \<^verbatim>\<open>Orderer\<close> group holds the given consensus-type value, at version 3
  and under the policy \<^verbatim>\<open>Writers\<close>.
\<close>

definition reference_config :: "bytes \<Rightarrow> Config" where
  "reference_config v =
     \<lparr>Sequence = 1,
      ChannelGroup = Some (ConfigGroup 0
        (Map.empty(''Orderer'' \<mapsto> ConfigGroup 0 Map.empty
           (Map.empty(''ConsensusType'' \<mapsto> \<lparr>Version = 3, Value = v, ModPolicy = ''Writers''\<rparr>))
           Map.empty ''Admins''))
        Map.empty Map.empty ''Admins'')\<rparr>"

text \<open>
  The other messages have a format of a few bytes each: a block is its number and one
  envelope, whose payload is the consensus-type value of the config; a consensus-type
  value is a byte for the type and the metadata.
\<close>

definition reference_lib :: externals where
  "reference_lib =
     \<lparr>Unmarshal_Metadata = get_Metadata,
      Marshal_Metadata = (\<lambda>m. Some (put_Metadata m)),
      Unmarshal_ConsensusType =
        (\<lambda>v. case v of [] \<Rightarrow> None
              | t # md \<Rightarrow> Some \<lparr>Type = (if t = 0 then ''solo'' else ''etcdraft''), Metadata = md\<rparr>),
      Marshal_ConsensusType =
        (\<lambda>ct. Some ((if Type ct = ''solo'' then 0 else 1) # Metadata ct)),
      UnmarshalBlock =
        (\<lambda>bs. case bs of [] \<Rightarrow> None
               | b # rest \<Rightarrow>
                   Some \<lparr>Block.Header = Some \<lparr>Number = of_nat (unat b), PreviousHash = [],
                                               DataHash = []\<rparr>,
                         Data = Some [rest]\<rparr>),
      GetEnvelopeFromBlock = (\<lambda>d. Some \<lparr>Payload = d, Signature = []\<rparr>),
      GetPayload = (\<lambda>e. Some \<lparr>Payload.Header = [], Data = Payload e\<rparr>),
      Unmarshal_ConfigEnvelope =
        (\<lambda>d. Some \<lparr>Config = Some (reference_config d), LastUpdate = None\<rparr>),
      Compute =
        (\<lambda>cur upd. Some \<lparr>ChannelId = [], ReadSet = ChannelGroup cur,
                           WriteSet = ChannelGroup upd\<rparr>),
      Marshal_ConfigUpdate = (\<lambda>u. Some (map (\<lambda>ch. of_nat (of_char ch)) (ChannelId u))),
      Marshal_ConfigUpdateEnvelope = (\<lambda>e. Some (ConfigUpdate e)),
      Marshal_Envelope = (\<lambda>env. Some (Update env)),
      Sign = (\<lambda>identity data. Some data)\<rparr>"

text \<open>
  The reference world: the files, the number of the current config block and the
  consensus-type value of the current config.
\<close>

record ledger =
  files :: "string \<Rightarrow> bytes option"
  height :: "8 word"
  consensus :: bytes

definition reference_session :: "command \<Rightarrow> ledger \<Rightarrow> session option \<times> ledger" where
  "reference_session c w =
     (case c of
        ChannelFetch channel block orderer output \<Rightarrow>
          (Some \<lparr>ExitCode = Some 0, Err = ''Received block: 1''\<rparr>,
           w\<lparr>files := (files w)(output \<mapsto> height w # consensus w)\<rparr>)
      | SignConfigTx file \<Rightarrow>
          (case files w file of
             None \<Rightarrow> (Some \<lparr>ExitCode = Some 1, Err = ''no such file''\<rparr>, w)
           | Some _ \<Rightarrow> (Some \<lparr>ExitCode = Some 0, Err = []\<rparr>, w))
      | ChannelUpdate channel orderer file \<Rightarrow>
          (Some \<lparr>ExitCode = Some 0, Err = ''Successfully submitted channel update''\<rparr>,
           w\<lparr>height := (if channel = ''frozen'' then height w else height w + 1)\<rparr>))"

fun refuses :: "Peer \<Rightarrow> command \<Rightarrow> bool" where
  "refuses (Peer name organization) (SignConfigTx file) = (organization = ''revoked'')"
| "refuses p c = False"

definition reference_net :: "ledger Network" where
  "reference_net =
     \<lparr>EventuallyTimeout = Suc (Suc 0),
      OrdererAddress = (\<lambda>orderer. ''127.0.0.1:7050''),
      PeerAdminSession =
        (\<lambda>p c w. if refuses p c then (Some \<lparr>ExitCode = Some 1, Err = ''access denied''\<rparr>, w)
                 else reference_session c w),
      OrdererAdminSession = (\<lambda>orderer p. reference_session),
      TempDir = (\<lambda>prefix w. (Some (''/tmp/'' @ prefix), w)),
      WriteFile = (\<lambda>path bs w. (True, w\<lparr>files := (files w)(path \<mapsto> bs)\<rparr>)),
      ReadFile = (\<lambda>path w. (files w path, w)),
      RemoveAll =
        (\<lambda>dir w. w\<lparr>files := (\<lambda>path. if take (length dir) path = dir then None
                                        else files w path)\<rparr>)\<rparr>"

definition reference_state :: "bytes \<Rightarrow> ledger state" where
  "reference_state v =
     \<lparr>world = \<lparr>files = Map.empty, height = 5, consensus = v\<rparr>, heap = []\<rparr>"

text \<open>
  Three consenters. A uses one certificate on both sides, B and C have two each.
\<close>

definition consenter_A :: Consenter where
  "consenter_A = \<lparr>Host = ''a.example.com'', Port = 7050,
                   ClientTlsCert = [65], ServerTlsCert = [65]\<rparr>"

definition consenter_B :: Consenter where
  "consenter_B = \<lparr>Host = ''b.example.com'', Port = 7050,
                   ClientTlsCert = [66, 49], ServerTlsCert = [66, 50]\<rparr>"

definition consenter_C :: Consenter where
  "consenter_C = \<lparr>Host = ''c.example.com'', Port = 7050,
                   ClientTlsCert = [67, 49], ServerTlsCert = [67, 50]\<rparr>"

text \<open>
  A stricter codec, as the protobuf library is for a string field: a host must be
  7-bit text, or the message is neither encoded nor decoded. D is a consenter with its
  own certificates whose host is the byte 255.
\<close>

definition valid_host :: "Consenter \<Rightarrow> bool" where
  "valid_host c = list_all (\<lambda>ch. of_char ch < (128 :: nat)) (Host c)"

definition strict_lib :: externals where
  "strict_lib =
     reference_lib
       \<lparr>Unmarshal_Metadata :=
          (\<lambda>b. case get_Metadata b of
                 None \<Rightarrow> None
               | Some m \<Rightarrow> if list_all valid_host (Consenters m) then Some m else None),
        Marshal_Metadata :=
          (\<lambda>m. if list_all valid_host (Consenters m) then Some (put_Metadata m) else None)\<rparr>"

definition consenter_D :: Consenter where
  "consenter_D = \<lparr>Host = [CHR 0xFF], Port = 7050,
                   ClientTlsCert = [68, 49], ServerTlsCert = [68, 50]\<rparr>"

text \<open>A state with two configs on the heap, for running the update flows.\<close>

definition two_configs :: "ledger state" where
  "two_configs =
     \<lparr>world = \<lparr>files = Map.empty, height = 5, consensus = [1]\<rparr>,
      heap = [reference_config [1], reference_config [1, 7]]\<rparr>"

text \<open>A decoder that keeps the header of a block and drops its data.\<close>

definition headers_only :: "externals \<Rightarrow> bytes \<Rightarrow> Block option" where
  "headers_only lib bs = map_option (\<lambda>blk. blk\<lparr>Block.Data := None\<rparr>) (UnmarshalBlock lib bs)"

text \<open>Metadata with two and with three consenters.\<close>

definition metadata_AB :: Metadata where
  "metadata_AB = \<lparr>Consenters = [consenter_A, consenter_B], Options = None\<rparr>"

definition metadata_ABC :: Metadata where
  "metadata_ABC = \<lparr>Consenters = [consenter_A, consenter_B, consenter_C], Options = None\<rparr>"

text \<open>
  The reference config after an update of the consensus metadata: the value is new, at
  version 0 and under the policy \<^verbatim>\<open>Admins\<close>.
\<close>

definition reference_updated :: "bytes \<Rightarrow> Config" where
  "reference_updated v =
     \<lparr>Sequence = 1,
      ChannelGroup = Some (ConfigGroup 0
        (Map.empty(''Orderer'' \<mapsto> ConfigGroup 0 Map.empty
           (Map.empty(''ConsensusType'' \<mapsto> \<lparr>Version = 0, Value = v, ModPolicy = ''Admins''\<rparr>))
           Map.empty ''Admins''))
        Map.empty Map.empty ''Admins'')\<rparr>"

section \<open>Reading a log\<close>

text \<open>
  The result of running a flow is its outcome, the state it leaves and the log it wrote.
  The predicates below say what kind an event is, and state the claims on a log.
\<close>

text \<open>The kinds of events: the three commands, a block number read, and the two
  events of preparing the update.\<close>

fun is_fetch :: "event \<Rightarrow> bool" where
  "is_fetch (Session a (ChannelFetch channel block orderer output) out) = True"
| "is_fetch _ = False"

fun is_sign :: "event \<Rightarrow> bool" where
  "is_sign (Session a (SignConfigTx file) out) = True"
| "is_sign _ = False"

fun is_submit :: "event \<Rightarrow> bool" where
  "is_submit (Session a (ChannelUpdate channel orderer file) out) = True"
| "is_submit _ = False"

fun is_observed :: "event \<Rightarrow> bool" where
  "is_observed (Observed v) = True"
| "is_observed _ = False"

text \<open>A command has completed when it was started and has exited with code 0.\<close>

fun completed :: "session option \<Rightarrow> bool" where
  "completed None = False"
| "completed (Some sess) = (ExitCode sess = Some 0)"

fun is_prepared :: "event \<Rightarrow> bool" where
  "is_prepared (Computed cur upd) = True"
| "is_prepared (Built env) = True"
| "is_prepared _ = False"

text \<open>
  The signing commands on a file, one for each actor that has an outcome, in the order
  of the actors.
\<close>

definition sign_requests :: "actor list \<Rightarrow> string \<Rightarrow> session option list \<Rightarrow> event list" where
  "sign_requests actors file outs =
     map (\<lambda>(a, out). Session a (SignConfigTx file) out) (zip actors outs)"

text \<open>
  What a log and an outcome say about signing: the signing commands of the log are those
  of the first so many actors, in order; where the log has a submitting command, every
  actor has signed, every signing command has completed, and none follows the
  submission; and when a signing command has not completed, the flow has failed and
  nothing was submitted.
\<close>

definition signing_discipline :: "actor list \<Rightarrow> error + unit \<Rightarrow> event list \<Rightarrow> bool" where
  "signing_discipline actors r t \<longleftrightarrow>
     (\<exists>file outs.
        length outs \<le> length actors \<and>
        filter is_sign t = sign_requests actors file outs \<and>
        (\<forall>pre sub post. t = pre @ sub # post \<and> is_submit sub \<longrightarrow>
           length outs = length actors \<and> list_all completed outs \<and> filter is_sign post = []) \<and>
        (\<not> list_all completed outs \<longrightarrow> (\<exists>e. r = Inl e) \<and> \<not> list_ex is_submit t))"

text \<open>
  The log shows a confirmed commit: a block number was read, the next event is the
  submitting command, and the log ends with a greater block number read.
\<close>

definition commit_confirmed :: "event list \<Rightarrow> bool" where
  "commit_confirmed t \<longleftrightarrow>
     (\<exists>pre b sub post v.
        t = pre @ [Observed b, sub] @ post @ [Observed v] \<and> is_submit sub \<and> b < v)"

text \<open>What decoding a block tells about its number: no block, no header, or the number.\<close>

definition number_view :: "Block option \<Rightarrow> 64 word option option" where
  "number_view b = map_option (\<lambda>blk. map_option Number (Block.Header blk)) b"

text \<open>
  What a log says about the envelope: every envelope built has the header of a config
  update on the channel, at version 0 and epoch 0, and no signature; and before a
  submitting command an envelope was built.
\<close>

definition envelope_discipline :: "string \<Rightarrow> event list \<Rightarrow> bool" where
  "envelope_discipline channel t \<longleftrightarrow>
     (\<forall>env. Built env \<in> set t \<longrightarrow>
        TypeTag (EnvHeader env) = HeaderType_CONFIG_UPDATE \<and>
        NamespaceId (EnvHeader env) = channel \<and>
        MsgVersion (EnvHeader env) = 0 \<and>
        Epoch (EnvHeader env) = 0 \<and>
        EnvSignatures env = []) \<and>
     (\<forall>pre sub post. t = pre @ sub # post \<and> is_submit sub \<longrightarrow> (\<exists>env. Built env \<in> set pre))"

text \<open>
  The three parts of the log of an update flow: preparing the update (\<open>t1\<close>), the
  signing commands with their outcomes, and submitting and waiting (\<open>t3\<close>).
\<close>

definition update_log ::
  "string \<Rightarrow> nat option \<Rightarrow> nat option \<Rightarrow> Config list \<Rightarrow> actor list \<Rightarrow> error + unit \<Rightarrow>
     event list \<Rightarrow> string \<Rightarrow> session option list \<Rightarrow> event list \<Rightarrow> bool" where
  "update_log channel current updated h actors r t1 file outs t3 \<longleftrightarrow>
     (\<forall>e \<in> set t1. is_prepared e) \<and>
     (\<forall>cur upd. Computed cur upd \<in> set t1 \<longrightarrow>
        (\<exists>a b. current = Some a \<and> a < length h \<and> cur = h ! a \<and>
               updated = Some b \<and> b < length h \<and> upd = h ! b)) \<and>
     (\<forall>env. Built env \<in> set t1 \<longrightarrow>
        EnvHeader env = \<lparr>TypeTag = HeaderType_CONFIG_UPDATE, NamespaceId = channel,
                           MsgVersion = 0, Epoch = 0\<rparr> \<and>
        EnvSignatures env = []) \<and>
     length outs \<le> length actors \<and>
     (\<forall>e \<in> set t3. is_fetch e \<or> is_observed e \<or> is_submit e) \<and>
     (t3 \<noteq> [] \<longrightarrow> length outs = length actors \<and> list_all completed outs \<and>
        (\<exists>env. Built env \<in> set t1)) \<and>
     (\<not> list_all completed outs \<longrightarrow> (\<exists>e. r = Inl e)) \<and>
     (r = Inr () \<longleftrightarrow> commit_confirmed t3)"

text \<open>The three components of a run.\<close>

abbreviation outcome :: "(error + 'a) \<times> 'w state \<times> event list \<Rightarrow> error + 'a" where
  "outcome x \<equiv> fst x"

abbreviation final :: "(error + 'a) \<times> 'w state \<times> event list \<Rightarrow> 'w state" where
  "final x \<equiv> fst (snd x)"

abbreviation events :: "(error + 'a) \<times> 'w state \<times> event list \<Rightarrow> event list" where
  "events x \<equiv> snd (snd x)"

section \<open>The reference codec obeys the codec laws\<close>

lemma byte_small:
  "n < 128 \<Longrightarrow> (of_nat n :: 8 word) < 128 \<and> unat (of_nat n :: 8 word) = n"
  by (simp add: word_less_nat_alt unat_of_nat)

lemma byte_big:
  "r < 128 \<Longrightarrow>
     \<not> (of_nat (128 + r) :: 8 word) < 128 \<and> unat (of_nat (128 + r) :: 8 word) = 128 + r"
  by (simp add: word_less_nat_alt unat_of_nat del: of_nat_add)

lemma get_put_uvarint: "get_uvarint (put_uvarint n @ rest) = Some (n, rest)"
proof (induction n rule: put_uvarint.induct)
  case (1 n)
  show ?case
  proof (cases "n < 128")
    case True
    then show ?thesis
      using byte_small [of n] by (simp add: put_uvarint.simps [of n])
  next
    case False
    have "n mod 128 < 128" by simp
    from byte_big [OF this] False "1.IH" show ?thesis
      by (simp add: put_uvarint.simps [of n])
  qed
qed

lemma get_put_bytes: "get_bytes (put_bytes bs @ rest) = Some (bs, rest)"
  by (simp add: get_bytes_def put_bytes_def get_put_uvarint)

lemma char_of_byte: "char_of (unat (of_nat (of_char ch) :: 8 word)) = ch"
  by (simp add: unat_of_nat)

lemma get_put_Consenter: "get_Consenter (put_Consenter c @ rest) = Some (c, rest)"
proof -
  have "unat (Port c) < 2 ^ 32"
    using unsigned_less [of "Port c"] by simp
  then show ?thesis
    by (simp add: get_Consenter_def put_Consenter_def get_put_bytes get_put_uvarint
        char_of_byte comp_def)
qed

lemma get_put_Consenters:
  "get_Consenters (length cs) (put_Consenters cs @ rest) = Some (cs, rest)"
  by (induction cs) (simp_all add: get_put_Consenter)

lemma get_put_Metadata: "get_Metadata (put_Metadata m) = Some m"
  by (cases "Options m")
    (simp_all add: get_Metadata_def put_Metadata_def get_put_uvarint get_put_Consenters
      get_put_bytes [of _ "[]", simplified])

lemma reference_codec_laws: "codec_laws reference_lib"
  by (auto simp: codec_laws_def reference_lib_def get_put_Metadata)

lemma reference_Unmarshal_Metadata:
  "Unmarshal_Metadata reference_lib (put_Metadata m) = Some m"
  by (simp add: reference_lib_def get_put_Metadata)

lemma reference_Marshal_Metadata: "Marshal_Metadata reference_lib m = Some (put_Metadata m)"
  by (simp add: reference_lib_def)

lemma strict_codec_laws: "codec_laws strict_lib"
  by (auto simp: codec_laws_def strict_lib_def get_put_Metadata list_all_iff
      split: option.splits if_splits)

lemma strict_Unmarshal_AB:
  "Unmarshal_Metadata strict_lib
     (put_Metadata \<lparr>Consenters = [consenter_A, consenter_B], Options = None\<rparr>) =
   Some \<lparr>Consenters = [consenter_A, consenter_B], Options = None\<rparr>"
  by (simp add: strict_lib_def get_put_Metadata valid_host_def consenter_A_def
      consenter_B_def)

lemma strict_AddConsenter_D:
  "AddConsenter_mutator strict_lib consenter_D
     (put_Metadata \<lparr>Consenters = [consenter_A, consenter_B], Options = None\<rparr>) =
   Inl SerializationError"
  by (simp add: AddConsenter_mutator_def strict_lib_def get_put_Metadata valid_host_def
      consenter_A_def consenter_B_def consenter_D_def)

section \<open>Properties of the mutators\<close>

lemma remove_loop_filter:
  "remove_loop cert cs acc =
     acc @ filter (\<lambda>c. ClientTlsCert c \<noteq> cert \<and> ServerTlsCert c \<noteq> cert) cs"
  by (induction cs arbitrary: acc) auto

lemma encodable_after_removal:
  assumes "codec_laws lib" and "Marshal_Metadata lib m \<noteq> None"
  shows "\<exists>b. Marshal_Metadata lib
           (m\<lparr>Consenters := remove_loop cert (Consenters m) []\<rparr>) = Some b"
proof -
  have "set (remove_loop cert (Consenters m) []) \<subseteq> set (Consenters m)"
    by (auto simp: remove_loop_filter)
  with assms show ?thesis
    unfolding codec_laws_def by blast
qed

lemma RemoveConsenter_mutator_decoded:
  assumes laws: "codec_laws lib"
    and enc: "Marshal_Metadata lib metadata \<noteq> None"
    and dec: "Unmarshal_Metadata lib originalMetadata = Some metadata"
  shows "\<exists>newMetadata.
           RemoveConsenter_mutator lib certificate originalMetadata = Inr newMetadata \<and>
           Marshal_Metadata lib
             (metadata\<lparr>Consenters := remove_loop certificate (Consenters metadata) []\<rparr>) =
             Some newMetadata \<and>
           Unmarshal_Metadata lib newMetadata =
             Some (metadata\<lparr>Consenters := remove_loop certificate (Consenters metadata) []\<rparr>)"
proof -
  obtain b where b: "Marshal_Metadata lib
      (metadata\<lparr>Consenters := remove_loop certificate (Consenters metadata) []\<rparr>) = Some b"
    using encodable_after_removal [OF laws enc] by blast
  with laws have "Unmarshal_Metadata lib b =
      Some (metadata\<lparr>Consenters := remove_loop certificate (Consenters metadata) []\<rparr>)"
    unfolding codec_laws_def by blast
  with b dec show ?thesis
    by (simp add: RemoveConsenter_mutator_def)
qed

lemma AddConsenter_mutator_decoded:
  assumes laws: "codec_laws lib"
    and dec: "Unmarshal_Metadata lib originalMetadata = Some metadata"
    and enc: "Marshal_Metadata lib
                (metadata\<lparr>Consenters := Consenters metadata @ [consenter]\<rparr>) \<noteq> None"
  shows "\<exists>newMetadata.
           AddConsenter_mutator lib consenter originalMetadata = Inr newMetadata \<and>
           Marshal_Metadata lib
             (metadata\<lparr>Consenters := Consenters metadata @ [consenter]\<rparr>) = Some newMetadata \<and>
           Unmarshal_Metadata lib newMetadata =
             Some (metadata\<lparr>Consenters := Consenters metadata @ [consenter]\<rparr>)"
proof -
  from enc obtain b where b: "Marshal_Metadata lib
      (metadata\<lparr>Consenters := Consenters metadata @ [consenter]\<rparr>) = Some b"
    by blast
  with laws have "Unmarshal_Metadata lib b =
      Some (metadata\<lparr>Consenters := Consenters metadata @ [consenter]\<rparr>)"
    unfolding codec_laws_def by blast
  with b dec show ?thesis
    by (simp add: AddConsenter_mutator_def)
qed

lemma decoded_encodable:
  "codec_laws lib \<Longrightarrow> Unmarshal_Metadata lib b = Some m \<Longrightarrow> Marshal_Metadata lib m \<noteq> None"
  unfolding codec_laws_def by blast

text \<open>
  C1. When the metadata decodes, the remove-consenter mutator returns metadata that
  decodes to the same message with, as its consenter list, exactly the records whose
  client and server certificates both differ from the given certificate, in their
  original order: a record that matches on either certificate is gone.
\<close>

theorem RemoveConsenter_keeps_exactly_the_others:
  assumes "codec_laws lib"
    and "Unmarshal_Metadata lib originalMetadata = Some metadata"
  shows "\<exists>newMetadata.
           RemoveConsenter_mutator lib certificate originalMetadata = Inr newMetadata \<and>
           Unmarshal_Metadata lib newMetadata =
             Some (metadata\<lparr>Consenters :=
               filter (\<lambda>c. ClientTlsCert c \<noteq> certificate \<and> ServerTlsCert c \<noteq> certificate)
                 (Consenters metadata)\<rparr>)"
  using RemoveConsenter_mutator_decoded [OF assms(1) decoded_encodable [OF assms] assms(2),
      of certificate]
  by (auto simp: remove_loop_filter)

theorem RemoveConsenter_keeps_exactly_the_others_witness:
  "codec_laws reference_lib \<and>
   Unmarshal_Metadata reference_lib
     (put_Metadata \<lparr>Consenters = [consenter_A, consenter_B, consenter_C], Options = None\<rparr>) =
     Some \<lparr>Consenters = [consenter_A, consenter_B, consenter_C], Options = None\<rparr> \<and>
   (\<exists>newMetadata.
      RemoveConsenter_mutator reference_lib [66, 49]
        (put_Metadata \<lparr>Consenters = [consenter_A, consenter_B, consenter_C], Options = None\<rparr>) =
        Inr newMetadata \<and>
      Unmarshal_Metadata reference_lib newMetadata =
        Some \<lparr>Consenters = [consenter_A, consenter_C], Options = None\<rparr>)"
  using RemoveConsenter_keeps_exactly_the_others [OF reference_codec_laws
      reference_Unmarshal_Metadata, of "[66, 49]"
      "\<lparr>Consenters = [consenter_A, consenter_B, consenter_C], Options = None\<rparr>"]
  by (simp add: reference_codec_laws reference_Unmarshal_Metadata
      consenter_A_def consenter_B_def consenter_C_def)

text \<open>
  C2. When the metadata decodes and no record has the given certificate as its client
  or its server certificate, the remove-consenter mutator raises no error and returns
  the bytes that encoding the decoded input gives; they decode to the decoded input.
\<close>

theorem RemoveConsenter_absent_is_reencoding:
  assumes "codec_laws lib"
    and "Unmarshal_Metadata lib originalMetadata = Some metadata"
    and "\<forall>c \<in> set (Consenters metadata).
           ClientTlsCert c \<noteq> certificate \<and> ServerTlsCert c \<noteq> certificate"
  shows "\<exists>newMetadata.
           RemoveConsenter_mutator lib certificate originalMetadata = Inr newMetadata \<and>
           Marshal_Metadata lib metadata = Some newMetadata \<and>
           Unmarshal_Metadata lib newMetadata = Some metadata"
proof -
  from assms(3) have "remove_loop certificate (Consenters metadata) [] = Consenters metadata"
    by (simp add: remove_loop_filter)
  with RemoveConsenter_mutator_decoded [OF assms(1) decoded_encodable [OF assms(1,2)] assms(2),
      of certificate]
  show ?thesis by simp
qed

theorem RemoveConsenter_absent_is_reencoding_witness:
  "codec_laws reference_lib \<and>
   Unmarshal_Metadata reference_lib
     (put_Metadata \<lparr>Consenters = [consenter_A, consenter_B], Options = None\<rparr>) =
     Some \<lparr>Consenters = [consenter_A, consenter_B], Options = None\<rparr> \<and>
   ClientTlsCert consenter_A \<noteq> [67, 49] \<and> ServerTlsCert consenter_A \<noteq> [67, 49] \<and>
   ClientTlsCert consenter_B \<noteq> [67, 49] \<and> ServerTlsCert consenter_B \<noteq> [67, 49] \<and>
   RemoveConsenter_mutator reference_lib [67, 49]
     (put_Metadata \<lparr>Consenters = [consenter_A, consenter_B], Options = None\<rparr>) =
     Inr (put_Metadata \<lparr>Consenters = [consenter_A, consenter_B], Options = None\<rparr>)"
proof -
  have absent: "\<forall>c \<in> set (Consenters \<lparr>Consenters = [consenter_A, consenter_B], Options = None\<rparr>).
      ClientTlsCert c \<noteq> [67, 49] \<and> ServerTlsCert c \<noteq> [67, 49]"
    by (simp add: consenter_A_def consenter_B_def)
  from RemoveConsenter_absent_is_reencoding [OF reference_codec_laws
      reference_Unmarshal_Metadata absent]
  show ?thesis
    using absent
    by (auto simp: reference_codec_laws reference_Unmarshal_Metadata
        reference_Marshal_Metadata)
qed




text \<open>
  C4, as amended. When the metadata decodes, no record of it has the certificate as its
  client or its server certificate, the certificate is one of the two of the new
  consenter, and the codec can encode the metadata with the new consenter appended,
  then adding the consenter and removing by the certificate returns metadata that
  decodes to what the original decodes to: the same consenters, in the same order.
\<close>

theorem add_then_remove_restores:
  assumes "codec_laws lib"
    and "Unmarshal_Metadata lib originalMetadata = Some metadata"
    and "\<forall>c \<in> set (Consenters metadata).
           ClientTlsCert c \<noteq> certificate \<and> ServerTlsCert c \<noteq> certificate"
    and "certificate = ClientTlsCert consenter \<or> certificate = ServerTlsCert consenter"
    and "Marshal_Metadata lib
           (metadata\<lparr>Consenters := Consenters metadata @ [consenter]\<rparr>) \<noteq> None"
  shows "\<exists>added removed decoded.
           AddConsenter_mutator lib consenter originalMetadata = Inr added \<and>
           RemoveConsenter_mutator lib certificate added = Inr removed \<and>
           Unmarshal_Metadata lib removed = Some decoded \<and>
           decoded = metadata \<and>
           set (Consenters decoded) = set (Consenters metadata)"
proof -
  from AddConsenter_mutator_decoded [OF assms(1,2,5)]
  obtain added where added: "AddConsenter_mutator lib consenter originalMetadata = Inr added"
    "Unmarshal_Metadata lib added =
       Some (metadata\<lparr>Consenters := Consenters metadata @ [consenter]\<rparr>)"
    by auto
  from RemoveConsenter_mutator_decoded [OF assms(1) decoded_encodable [OF assms(1) added(2)]
      added(2), of certificate]
  obtain removed where removed: "RemoveConsenter_mutator lib certificate added = Inr removed"
    "Unmarshal_Metadata lib removed =
       Some (metadata\<lparr>Consenters :=
          remove_loop certificate (Consenters metadata @ [consenter]) []\<rparr>)"
    by auto
  from assms(3,4) have
    "remove_loop certificate (Consenters metadata @ [consenter]) [] = Consenters metadata"
    by (auto simp: remove_loop_filter)
  with added removed show ?thesis by simp
qed

theorem add_then_remove_restores_witness:
  "codec_laws reference_lib \<and>
   Unmarshal_Metadata reference_lib
     (put_Metadata \<lparr>Consenters = [consenter_A, consenter_B], Options = None\<rparr>) =
     Some \<lparr>Consenters = [consenter_A, consenter_B], Options = None\<rparr> \<and>
   ClientTlsCert consenter_A \<noteq> [67, 50] \<and> ServerTlsCert consenter_A \<noteq> [67, 50] \<and>
   ClientTlsCert consenter_B \<noteq> [67, 50] \<and> ServerTlsCert consenter_B \<noteq> [67, 50] \<and>
   ([67, 50] = ClientTlsCert consenter_C \<or> [67, 50] = ServerTlsCert consenter_C) \<and>
   (\<exists>added removed.
      AddConsenter_mutator reference_lib consenter_C
        (put_Metadata \<lparr>Consenters = [consenter_A, consenter_B], Options = None\<rparr>) = Inr added \<and>
      RemoveConsenter_mutator reference_lib [67, 50] added = Inr removed \<and>
      Unmarshal_Metadata reference_lib removed =
        Some \<lparr>Consenters = [consenter_A, consenter_B], Options = None\<rparr>)"
proof -
  have absent: "\<forall>c \<in> set (Consenters \<lparr>Consenters = [consenter_A, consenter_B], Options = None\<rparr>).
      ClientTlsCert c \<noteq> [67, 50] \<and> ServerTlsCert c \<noteq> [67, 50]"
    by (simp add: consenter_A_def consenter_B_def)
  have own: "[67, 50] = ClientTlsCert consenter_C \<or> [67, 50] = ServerTlsCert consenter_C"
    by (simp add: consenter_C_def)
  have enc: "Marshal_Metadata reference_lib
     (\<lparr>Consenters = [consenter_A, consenter_B], Options = None\<rparr>
        \<lparr>Consenters := Consenters \<lparr>Consenters = [consenter_A, consenter_B], Options = None\<rparr>
           @ [consenter_C]\<rparr>) \<noteq> None"
    by (simp add: reference_Marshal_Metadata)
  from add_then_remove_restores [OF reference_codec_laws reference_Unmarshal_Metadata absent
      own enc]
  show ?thesis
    using absent own
    by (auto simp: reference_codec_laws reference_Unmarshal_Metadata)
qed

text \<open>
  Without the encodability of the new consenter the round trip fails: the existing
  records A and B do not match the certificates of D, and adding D fails.
\<close>

theorem add_then_remove_restores_counterexample:
  "codec_laws strict_lib \<and>
   Unmarshal_Metadata strict_lib
     (put_Metadata \<lparr>Consenters = [consenter_A, consenter_B], Options = None\<rparr>) =
     Some \<lparr>Consenters = [consenter_A, consenter_B], Options = None\<rparr> \<and>
   ClientTlsCert consenter_A \<noteq> ClientTlsCert consenter_D \<and>
   ServerTlsCert consenter_A \<noteq> ClientTlsCert consenter_D \<and>
   ClientTlsCert consenter_B \<noteq> ClientTlsCert consenter_D \<and>
   ServerTlsCert consenter_B \<noteq> ClientTlsCert consenter_D \<and>
   ClientTlsCert consenter_A \<noteq> ServerTlsCert consenter_D \<and>
   ServerTlsCert consenter_A \<noteq> ServerTlsCert consenter_D \<and>
   ClientTlsCert consenter_B \<noteq> ServerTlsCert consenter_D \<and>
   ServerTlsCert consenter_B \<noteq> ServerTlsCert consenter_D \<and>
   AddConsenter_mutator strict_lib consenter_D
     (put_Metadata \<lparr>Consenters = [consenter_A, consenter_B], Options = None\<rparr>) =
     Inl SerializationError"
  using strict_codec_laws strict_Unmarshal_AB strict_AddConsenter_D
  by (simp add: consenter_A_def consenter_B_def consenter_D_def)

section \<open>Properties of the flows\<close>

lemma bindE:
  assumes "bind f g s = (r, s', t)"
  obtains (failed) e where "f s = (Inl e, s', t)" and "r = Inl e"
  | (went_on) x s1 t1 t2 where "f s = (Inr x, s1, t1)" and "g x s1 = (r, s', t2)"
      and "t = t1 @ t2"
  using assms by (auto simp: bind_def split: prod.splits sum.splits)

lemma bind_Inl: "f s = (Inl e, s1, t1) \<Longrightarrow> bind f g s = (Inl e, s1, t1)"
  by (simp add: bind_def)

lemma bind_Inr:
  "f s = (Inr x, s1, t1) \<Longrightarrow> bind f g s = (case g x s1 of (r, s2, t2) \<Rightarrow> (r, s2, t1 @ t2))"
  by (simp add: bind_def)

lemmas step_defs = ret_def fail_def emit_def expect_def call_def returned_def

lemmas check_defs = Eventually_Exit_def Expect_Say_def

lemma peerAdminSessionE:
  assumes "peerAdminSession n p c s = (r, s', t)"
  obtains out where "t = [Session (PeerAdmin p) c out]" and "heap s' = heap s"
    and "r = (case out of None \<Rightarrow> Inl SessionError | Some sess \<Rightarrow> Inr sess)"
  using assms
  by (auto simp: peerAdminSession_def bind_def step_defs split: prod.splits option.splits)

lemma ordererAdminSessionE:
  assumes "ordererAdminSession n orderer p c s = (r, s', t)"
  obtains out where "t = [Session (OrdererAdmin orderer p) c out]" and "heap s' = heap s"
    and "r = (case out of None \<Rightarrow> Inl SessionError | Some sess \<Rightarrow> Inr sess)"
  using assms
  by (auto simp: ordererAdminSession_def bind_def step_defs split: prod.splits option.splits)

lemma UnmarshalBlockFromFile_frame:
  assumes "UnmarshalBlockFromFile lib n f s = (r, s', t)"
  shows "heap s' = heap s \<and> t = []"
  using assms
  by (auto simp: UnmarshalBlockFromFile_def bind_def step_defs split: prod.splits option.splits)

lemma tempDir_scope:
  assumes "bind (call (TempDir n prefix)) (\<lambda>r. bind (expect IOError r) (\<lambda>d.
             deferred (RemoveAll n d) (body d))) s = (r, s', t)"
  obtains (no_dir) "r = Inl IOError" and "t = []" and "heap s' = heap s"
  | (in_dir) d s1 s1' where "body d s1 = (r, s1', t)" and "heap s1 = heap s"
      and "heap s' = heap s1'"
  using assms
  by (auto simp: bind_def deferred_def step_defs split: prod.splits option.splits sum.splits)

lemma CurrentConfigBlockNumber_shape:
  assumes "CurrentConfigBlockNumber lib n p orderer channel s = (r, s', t)"
  shows "heap s' = heap s \<and>
         (case r of Inr v \<Rightarrow> \<exists>e. is_fetch e \<and> t = [e, Observed v]
                  | Inl err \<Rightarrow> list_all is_fetch t)"
  using assms [unfolded CurrentConfigBlockNumber_def]
proof (cases rule: tempDir_scope)
  case no_dir
  then show ?thesis by simp
next
  case (in_dir d s1 s1')
  from in_dir(1) have "heap s1' = heap s1 \<and>
         (case r of Inr v \<Rightarrow> \<exists>e. is_fetch e \<and> t = [e, Observed v]
                  | Inl err \<Rightarrow> list_all is_fetch t)"
    by (elim bindE peerAdminSessionE)
      (auto dest!: UnmarshalBlockFromFile_frame simp: step_defs check_defs
        split: option.splits if_splits)
  with in_dir(2,3) show ?thesis by simp
qed

lemma GetConfigBlock_shape:
  assumes "GetConfigBlock lib n p orderer channel s = (r, s', t)"
  shows "heap s' = heap s \<and> list_all is_fetch t"
  using assms [unfolded GetConfigBlock_def]
proof (cases rule: tempDir_scope)
  case no_dir
  then show ?thesis by simp
next
  case (in_dir d s1 s1')
  from in_dir(1) have "heap s1' = heap s1 \<and> list_all is_fetch t"
    by (elim bindE peerAdminSessionE)
      (auto dest!: UnmarshalBlockFromFile_frame simp: step_defs check_defs
        split: option.splits if_splits)
  with in_dir(2,3) show ?thesis by simp
qed

lemma GetConfig_shape:
  assumes "GetConfig lib n p orderer channel s = (r, s', t)"
  shows "list_all is_fetch t \<and>
         (case r of
            Inr (Some a) \<Rightarrow> a = length (heap s) \<and> (\<exists>c. heap s' = heap s @ [c])
          | _ \<Rightarrow> heap s' = heap s)"
  using assms unfolding GetConfig_def
  by (elim bindE)
    (auto dest!: GetConfigBlock_shape simp: step_defs bind_def alloc_def
      split: option.splits list.splits)

lemma write_update_shape:
  assumes "write_update lib n channel current updated file s = (r, s', t)"
  shows "heap s' = heap s \<and>
         (\<forall>e \<in> set t. is_prepared e) \<and>
         (\<forall>cur upd. Computed cur upd \<in> set t \<longrightarrow>
            (\<exists>a b. current = Some a \<and> a < length (heap s) \<and> cur = heap s ! a \<and>
                   updated = Some b \<and> b < length (heap s) \<and> upd = heap s ! b)) \<and>
         (\<forall>env. Built env \<in> set t \<longrightarrow>
            EnvHeader env = \<lparr>TypeTag = HeaderType_CONFIG_UPDATE, NamespaceId = channel,
                               MsgVersion = 0, Epoch = 0\<rparr> \<and>
            EnvSignatures env = []) \<and>
         (r = Inr () \<longrightarrow> (\<exists>env. Built env \<in> set t))"
  using assms unfolding write_update_def
  by (elim bindE)
    (auto simp: step_defs deref_def CreateSignedEnvelope_def
      split: option.splits if_splits prod.splits)

subsection \<open>Lists\<close>

lemma split_prefix:
  "\<forall>e \<in> set P. \<not> Q e \<Longrightarrow> Q x \<Longrightarrow> P @ T = pre @ x # rest \<Longrightarrow>
     \<exists>pre'. pre = P @ pre' \<and> T = pre' @ x # rest"
proof (induction P arbitrary: pre)
  case Nil
  then show ?case by simp
next
  case (Cons p P)
  then show ?case by (cases pre) auto
qed

lemma split_at_unique:
  "\<forall>e \<in> set xs. \<not> Q e \<Longrightarrow> \<forall>e \<in> set ys. \<not> Q e \<Longrightarrow> Q a' \<Longrightarrow>
     xs @ a # ys = us @ a' # vs \<Longrightarrow> us = xs \<and> a' = a \<and> vs = ys"
proof (induction xs arbitrary: us)
  case Nil
  then show ?case by (cases us) auto
next
  case (Cons x xs)
  then show ?case by (cases us) auto
qed

subsection \<open>The signing loops\<close>

lemma peer_session_cases:
  assumes "bind (peerAdminSession n p c) (\<lambda>sess. bind (Eventually_Exit sess 0) (\<lambda>_. rest sess)) s
             = (r, s', t)"
  obtains (stopped) out e where "t = [Session (PeerAdmin p) c out]" and "\<not> completed out"
      and "r = Inl e" and "heap s' = heap s"
  | (exited) sess s1 t2 where "ExitCode sess = Some 0" and "rest sess s1 = (r, s', t2)"
      and "t = Session (PeerAdmin p) c (Some sess) # t2" and "heap s1 = heap s"
  using assms
  by (elim bindE peerAdminSessionE)
    (auto simp: check_defs step_defs split: option.splits if_splits)

lemma orderer_session_cases:
  assumes "bind (ordererAdminSession n orderer p c)
             (\<lambda>sess. bind (Eventually_Exit sess 0) (\<lambda>_. rest sess)) s = (r, s', t)"
  obtains (stopped) out e where "t = [Session (OrdererAdmin orderer p) c out]"
      and "\<not> completed out" and "r = Inl e" and "heap s' = heap s"
  | (exited) sess s1 t2 where "ExitCode sess = Some 0" and "rest sess s1 = (r, s', t2)"
      and "t = Session (OrdererAdmin orderer p) c (Some sess) # t2" and "heap s1 = heap s"
  using assms
  by (elim bindE ordererAdminSessionE)
    (auto simp: check_defs step_defs split: option.splits if_splits)

lemma sign_as_peers_shape:
  assumes "sign_as_peers n file signers s = (r, s', t)"
  shows "heap s' = heap s \<and>
         (\<exists>outs. length outs \<le> length signers \<and>
            t = sign_requests (map PeerAdmin signers) file outs \<and>
            (r = Inr () \<longrightarrow> length outs = length signers \<and> list_all completed outs) \<and>
            ((\<exists>e. r = Inl e) \<longrightarrow> \<not> list_all completed outs))"
  using assms
proof (induction signers arbitrary: s r s' t)
  case Nil
  then show ?case by (auto simp: ret_def sign_requests_def)
next
  case (Cons p ps)
  from Cons.prems
  have "bind (peerAdminSession n p (SignConfigTx file))
          (\<lambda>sess. bind (Eventually_Exit sess 0) (\<lambda>_. sign_as_peers n file ps)) s = (r, s', t)"
    by simp
  then show ?case
  proof (cases rule: peer_session_cases [where rest = "\<lambda>_. sign_as_peers n file ps"])
    case (stopped out e)
    then show ?thesis
      by (intro conjI exI [of _ "[out]"]) (auto simp: sign_requests_def)
  next
    case (exited sess s1 t2)
    from Cons.IH [OF exited(2)] obtain outs where outs: "heap s' = heap s1"
      "length outs \<le> length ps" "t2 = sign_requests (map PeerAdmin ps) file outs"
      "r = Inr () \<longrightarrow> length outs = length ps \<and> list_all completed outs"
      "(\<exists>e. r = Inl e) \<longrightarrow> \<not> list_all completed outs"
      by blast
    with exited show ?thesis
      by (intro conjI exI [of _ "Some sess # outs"]) (auto simp: sign_requests_def)
  qed
qed

lemma sign_as_orderers_shape:
  assumes "sign_as_orderers n file submitter signers s = (r, s', t)"
  shows "heap s' = heap s \<and>
         (\<exists>outs. length outs \<le> length signers \<and>
            t = sign_requests (map (\<lambda>signer. OrdererAdmin signer submitter) signers) file outs \<and>
            (r = Inr () \<longrightarrow> length outs = length signers \<and> list_all completed outs) \<and>
            ((\<exists>e. r = Inl e) \<longrightarrow> \<not> list_all completed outs))"
  using assms
proof (induction signers arbitrary: s r s' t)
  case Nil
  then show ?case by (auto simp: ret_def sign_requests_def)
next
  case (Cons p ps)
  from Cons.prems
  have "bind (ordererAdminSession n p submitter (SignConfigTx file))
          (\<lambda>sess. bind (Eventually_Exit sess 0) (\<lambda>_. sign_as_orderers n file submitter ps)) s
            = (r, s', t)"
    by simp
  then show ?case
  proof (cases rule: orderer_session_cases
      [where rest = "\<lambda>_. sign_as_orderers n file submitter ps"])
    case (stopped out e)
    then show ?thesis
      by (intro conjI exI [of _ "[out]"]) (auto simp: sign_requests_def)
  next
    case (exited sess s1 t2)
    from Cons.IH [OF exited(2)] obtain outs where outs: "heap s' = heap s1"
      "length outs \<le> length ps"
      "t2 = sign_requests (map (\<lambda>signer. OrdererAdmin signer submitter) ps) file outs"
      "r = Inr () \<longrightarrow> length outs = length ps \<and> list_all completed outs"
      "(\<exists>e. r = Inl e) \<longrightarrow> \<not> list_all completed outs"
      by blast
    with exited show ?thesis
      by (intro conjI exI [of _ "Some sess # outs"]) (auto simp: sign_requests_def)
  qed
qed

subsection \<open>Waiting for the commit\<close>

lemma Eventually_greater_shape:
  assumes ccb: "\<And>s r s' t. ccb s = (r, s', t) \<Longrightarrow>
      heap s' = heap s \<and>
      (case r of Inr v \<Rightarrow> \<exists>e. is_fetch e \<and> t = [e, Observed v]
               | Inl err \<Rightarrow> list_all is_fetch t)"
    and run: "Eventually_greater ccb k base s = (r, s', t)"
  shows "heap s' = heap s \<and> (\<forall>e \<in> set t. is_fetch e \<or> is_observed e) \<and>
         (r = Inr () \<longleftrightarrow> (\<exists>pre v. t = pre @ [Observed v] \<and> base < v))"
  using run
proof (induction k arbitrary: s r s' t)
  case 0
  then show ?case
    by (simp, elim bindE)
      (auto dest!: ccb simp: step_defs list_all_iff split: if_splits
        elim!: rev_cases [of "_ :: event list"])
next
  case (Suc k)
  from Suc.prems show ?case
  proof (simp, elim bindE)
    fix e
    assume "ccb s = (Inl e, s', t)" "r = Inl e"
    with ccb [of s "Inl e" s' t] show ?thesis
      by (auto simp: list_all_iff)
  next
    fix v s1 t1 t2
    assume first: "ccb s = (Inr v, s1, t1)"
      and rest: "(if base < v then ret () else Eventually_greater ccb k base) s1 = (r, s', t2)"
      and t: "t = t1 @ t2"
    from ccb [OF first] obtain e where e: "heap s1 = heap s" "is_fetch e" "t1 = [e, Observed v]"
      by auto
    show ?thesis
    proof (cases "base < v")
      case True
      with rest e t show ?thesis by (auto simp: ret_def)
    next
      case False
      with rest have "Eventually_greater ccb k base s1 = (r, s', t2)" by simp
      from Suc.IH [OF this] have ih: "heap s' = heap s1"
        "\<forall>e \<in> set t2. is_fetch e \<or> is_observed e"
        "r = Inr () \<longleftrightarrow> (\<exists>pre v. t2 = pre @ [Observed v] \<and> base < v)"
        by auto
      have "(\<exists>pre w. t = pre @ [Observed w] \<and> base < w) \<longleftrightarrow>
            (\<exists>pre w. t2 = pre @ [Observed w] \<and> base < w)"
      proof (cases t2 rule: rev_cases)
        case Nil
        with t e False show ?thesis by auto
      next
        case (snoc ys y)
        with t e show ?thesis by auto
      qed
      with ih e t show ?thesis by auto
    qed
  qed
qed

subsection \<open>Kinds of events\<close>

lemma fetch_kind:
  "is_fetch e \<Longrightarrow> \<not> is_sign e \<and> \<not> is_submit e \<and> \<not> is_observed e \<and> \<not> is_prepared e"
  by (cases e rule: is_fetch.cases) auto

lemma observed_kind:
  "is_observed e \<Longrightarrow> \<not> is_sign e \<and> \<not> is_submit e \<and> \<not> is_fetch e \<and> \<not> is_prepared e"
  by (cases e) auto

lemma submit_kind:
  "is_submit e \<Longrightarrow> \<not> is_sign e \<and> \<not> is_fetch e \<and> \<not> is_observed e \<and> \<not> is_prepared e"
  by (cases e rule: is_submit.cases) auto

lemma prepared_kind:
  "is_prepared e \<Longrightarrow> \<not> is_sign e \<and> \<not> is_fetch e \<and> \<not> is_observed e \<and> \<not> is_submit e"
  by (cases e) auto

lemma sign_requests_kind:
  "e \<in> set (sign_requests actors file outs) \<Longrightarrow>
     is_sign e \<and> \<not> is_submit e \<and> \<not> is_observed e \<and> \<not> is_prepared e \<and> \<not> is_fetch e"
  by (auto simp: sign_requests_def)

lemma filter_sign_requests:
  "filter is_sign (sign_requests actors file outs) = sign_requests actors file outs"
  by (simp add: sign_requests_def filter_map comp_def case_prod_unfold)

subsection \<open>Submitting and waiting\<close>

lemma commit_confirmed_submit:
  "commit_confirmed t \<Longrightarrow> \<exists>e \<in> set t. is_submit e"
  by (auto simp: commit_confirmed_def)

lemma commit_confirmed_last:
  "commit_confirmed t \<Longrightarrow> t \<noteq> [] \<and> is_observed (last t)"
  by (auto simp: commit_confirmed_def)

lemma confirmed_after_submit:
  assumes "is_fetch e" and "is_submit sub" and "\<forall>x \<in> set tp. is_fetch x \<or> is_observed x"
  shows "commit_confirmed ([e, Observed b, sub] @ tp) \<longleftrightarrow>
         (\<exists>pre v. tp = pre @ [Observed v] \<and> b < v)"
proof
  assume "commit_confirmed ([e, Observed b, sub] @ tp)"
  then obtain pre' b' sub' post' v' where
    eq: "[e, Observed b, sub] @ tp = pre' @ [Observed b', sub'] @ post' @ [Observed v']"
    and sub': "is_submit sub'" and less: "b' < v'"
    by (auto simp: commit_confirmed_def)
  from eq have "[e, Observed b] @ sub # tp = (pre' @ [Observed b']) @ sub' # (post' @ [Observed v'])"
    by simp
  moreover have "\<forall>x \<in> set [e, Observed b]. \<not> is_submit x"
    using assms(1) by (auto dest: fetch_kind)
  moreover have "\<forall>x \<in> set tp. \<not> is_submit x"
    using assms(3) by (auto dest: fetch_kind observed_kind)
  ultimately have "pre' @ [Observed b'] = [e, Observed b] \<and> sub' = sub \<and>
      post' @ [Observed v'] = tp"
    using sub' by (rule split_at_unique [rotated 3])
  then have "b' = b" and "tp = post' @ [Observed v']"
    by (auto simp: append_eq_Cons_conv)
  with less show "\<exists>pre v. tp = pre @ [Observed v] \<and> b < v" by blast
next
  assume "\<exists>pre v. tp = pre @ [Observed v] \<and> b < v"
  then obtain pre v where "tp = pre @ [Observed v]" "b < v" by blast
  then have "[e, Observed b, sub] @ tp = [e] @ [Observed b, sub] @ pre @ [Observed v]"
    by simp
  with assms(2) \<open>b < v\<close> show "commit_confirmed ([e, Observed b, sub] @ tp)"
    unfolding commit_confirmed_def by blast
qed

lemma submit_and_wait_shape:
  assumes "submit_and_wait lib n orderer channel submitter file s = (r, s', t)"
  shows "heap s' = heap s \<and> (\<forall>e \<in> set t. is_fetch e \<or> is_observed e \<or> is_submit e) \<and>
         (r = Inr () \<longleftrightarrow> commit_confirmed t)"
  using assms unfolding submit_and_wait_def
proof (cases rule: bindE)
  case (failed e)
  from CurrentConfigBlockNumber_shape [OF failed(1)] failed(2) show ?thesis
    by (auto simp: list_all_iff dest!: commit_confirmed_last dest: fetch_kind)
next
  case (went_on b s1 t1 t2)
  from CurrentConfigBlockNumber_shape [OF went_on(1)]
  obtain e where e: "heap s1 = heap s" "is_fetch e" "t1 = [e, Observed b]"
    by auto
  from went_on(2) show ?thesis
  proof (cases rule: peer_session_cases [where rest = "\<lambda>sess.
      bind (Expect_Say (Err sess) ''Successfully submitted channel update'') (\<lambda>_.
        Eventually_greater (CurrentConfigBlockNumber lib n submitter orderer channel)
          (EventuallyTimeout n) b)"])
    case (stopped out err)
    with went_on(3) e show ?thesis
      by (auto dest!: commit_confirmed_last)
  next
    case (exited sess s2 t3)
    from exited(2) show ?thesis
    proof (cases rule: bindE)
      case (failed err)
      with exited went_on(3) e show ?thesis
        by (auto simp: check_defs step_defs dest!: commit_confirmed_last split: if_splits)
    next
      case (went_on u s3 t4 t5)
      from went_on(1) have s3: "s3 = s2" "t4 = []"
        by (auto simp: check_defs step_defs split: if_splits)
      from Eventually_greater_shape [OF CurrentConfigBlockNumber_shape went_on(2)]
      have poll: "heap s' = heap s3" "\<forall>x \<in> set t5. is_fetch x \<or> is_observed x"
        "r = Inr () \<longleftrightarrow> (\<exists>pre v. t5 = pre @ [Observed v] \<and> b < v)"
        by auto
      have t: "t = [e, Observed b, Session (PeerAdmin submitter)
          (ChannelUpdate channel (OrdererAddress n orderer) file) (Some sess)] @ t5"
        using \<open>t = t1 @ t2\<close> e exited(3) went_on(3) s3 by simp
      from confirmed_after_submit [OF e(2) _ poll(2), of "Session (PeerAdmin submitter)
          (ChannelUpdate channel (OrdererAddress n orderer) file) (Some sess)" b] poll(3) t
      have "r = Inr () \<longleftrightarrow> commit_confirmed t" by simp
      with poll e exited(4) s3 t show ?thesis by auto
    qed
  qed
qed

subsection \<open>The update flows\<close>

lemma commit_confirmed_append:
  assumes "\<forall>e \<in> set P. \<not> is_observed e"
  shows "commit_confirmed (P @ T) \<longleftrightarrow> commit_confirmed T"
proof
  assume "commit_confirmed (P @ T)"
  then obtain pre b sub post v where
    eq: "P @ T = pre @ Observed b # ([sub] @ post @ [Observed v])"
    and sub: "is_submit sub" and less: "b < v"
    by (auto simp: commit_confirmed_def)
  from split_prefix [where Q = is_observed, OF assms _ eq]
  obtain pre' where "T = pre' @ Observed b # ([sub] @ post @ [Observed v])" by auto
  with sub less show "commit_confirmed T"
    unfolding commit_confirmed_def by auto
next
  assume "commit_confirmed T"
  then obtain pre b sub post v where
    "T = pre @ [Observed b, sub] @ post @ [Observed v]" "is_submit sub" "b < v"
    by (auto simp: commit_confirmed_def)
  then have "P @ T = (P @ pre) @ [Observed b, sub] @ post @ [Observed v]" "is_submit sub" "b < v"
    by simp_all
  then show "commit_confirmed (P @ T)"
    unfolding commit_confirmed_def by blast
qed

lemma update_flow_shape:
  assumes flow: "bind (call (TempDir n ''updateConfig'')) (\<lambda>r.
       bind (expect IOError r) (\<lambda>tempDir.
       deferred (RemoveAll n tempDir)
         (bind (write_update lib n channel current updated
                  (filepath_Join tempDir ''update.pb'')) (\<lambda>_.
          bind (sign (filepath_Join tempDir ''update.pb'')) (\<lambda>_.
          submit_and_wait lib n orderer channel submitter
            (filepath_Join tempDir ''update.pb'')))))) s = (r, s', t)"
    and sign: "\<And>f s r s' t. sign f s = (r, s', t) \<Longrightarrow>
       heap s' = heap s \<and>
       (\<exists>outs. length outs \<le> length actors \<and> t = sign_requests actors f outs \<and>
          (r = Inr () \<longrightarrow> length outs = length actors \<and> list_all completed outs) \<and>
          ((\<exists>e. r = Inl e) \<longrightarrow> \<not> list_all completed outs))"
  shows "heap s' = heap s \<and>
         (\<exists>t1 file outs t3.
            t = t1 @ sign_requests actors file outs @ t3 \<and>
            update_log channel current updated (heap s) actors r t1 file outs t3)"
  using flow
proof (cases rule: tempDir_scope)
  case no_dir
  then have "t = [] @ sign_requests actors [] [] @ []"
    "update_log channel current updated (heap s) actors r [] [] [] []"
    by (auto simp: update_log_def sign_requests_def dest!: commit_confirmed_last)
  with no_dir show ?thesis by blast
next
  case (in_dir d s1 s4)
  let ?file = "filepath_Join d ''update.pb''"
  from in_dir(1) show ?thesis
  proof (cases rule: bindE)
    case (failed e)
    from write_update_shape [OF failed(1)] failed(2) in_dir(2)
    have "t = t @ sign_requests actors [] [] @ []"
      "update_log channel current updated (heap s) actors r t [] [] []"
      by (auto simp: update_log_def sign_requests_def dest!: commit_confirmed_last)
    moreover from write_update_shape [OF failed(1)] in_dir(2,3) have "heap s' = heap s"
      by simp
    ultimately show ?thesis by blast
  next
    case (went_on u s2 t1 t2)
    note w = write_update_shape [OF went_on(1)]
    from went_on(2) show ?thesis
    proof (cases rule: bindE)
      case (failed e)
      from sign [OF failed(1)] obtain outs where outs: "heap s4 = heap s2"
        "length outs \<le> length actors" "t2 = sign_requests actors ?file outs"
        "\<not> list_all completed outs"
        by auto
      from w outs failed(2) in_dir(2) went_on(3)
      have "t = t1 @ sign_requests actors ?file outs @ []"
        "update_log channel current updated (heap s) actors r t1 ?file outs []"
        by (auto simp: update_log_def dest!: commit_confirmed_last)
      moreover from w outs in_dir(2,3) have "heap s' = heap s" by simp
      ultimately show ?thesis by blast
    next
      case (went_on v s3 t3 t4)
      from sign [OF went_on(1)] obtain outs where outs: "heap s3 = heap s2"
        "length outs = length actors" "t3 = sign_requests actors ?file outs"
        "list_all completed outs"
        by auto
      note tail = submit_and_wait_shape [OF went_on(2)]
      from w outs tail in_dir(2) \<open>t = t1 @ t2\<close> went_on(3)
      have "t = t1 @ sign_requests actors ?file outs @ t4"
        "update_log channel current updated (heap s) actors r t1 ?file outs t4"
        by (auto simp: update_log_def)
      moreover from w outs tail in_dir(2,3) have "heap s' = heap s" by simp
      ultimately show ?thesis by blast
    qed
  qed
qed

lemma UpdateConfig_log:
  "heap (final (UpdateConfig lib n orderer channel current updated submitter signers s)) = heap s \<and>
   (\<exists>t1 file outs t3.
      events (UpdateConfig lib n orderer channel current updated submitter signers s) =
        t1 @ sign_requests (map PeerAdmin signers) file outs @ t3 \<and>
      update_log channel current updated (heap s) (map PeerAdmin signers)
        (outcome (UpdateConfig lib n orderer channel current updated submitter signers s))
        t1 file outs t3)"
proof -
  obtain r s' t where run:
    "UpdateConfig lib n orderer channel current updated submitter signers s = (r, s', t)"
    by (cases "UpdateConfig lib n orderer channel current updated submitter signers s")
  from update_flow_shape [where sign = "\<lambda>f. sign_as_peers n f signers"
      and actors = "map PeerAdmin signers", OF run [unfolded UpdateConfig_def]]
    sign_as_peers_shape [of n _ signers]
  show ?thesis unfolding run by simp
qed

lemma UpdateOrdererConfig_log:
  "heap (final (UpdateOrdererConfig lib n orderer channel current updated submitter signers s))
     = heap s \<and>
   (\<exists>t1 file outs t3.
      events (UpdateOrdererConfig lib n orderer channel current updated submitter signers s) =
        t1 @ sign_requests (map (\<lambda>signer. OrdererAdmin signer submitter) signers) file outs @ t3 \<and>
      update_log channel current updated (heap s)
        (map (\<lambda>signer. OrdererAdmin signer submitter) signers)
        (outcome (UpdateOrdererConfig lib n orderer channel current updated submitter signers s))
        t1 file outs t3)"
proof -
  obtain r s' t where run:
    "UpdateOrdererConfig lib n orderer channel current updated submitter signers s = (r, s', t)"
    by (cases "UpdateOrdererConfig lib n orderer channel current updated submitter signers s")
  from update_flow_shape [where sign = "\<lambda>f. sign_as_orderers n f submitter signers"
      and actors = "map (\<lambda>signer. OrdererAdmin signer submitter) signers",
      OF run [unfolded UpdateOrdererConfig_def]]
    sign_as_orderers_shape [of n _ submitter signers]
  show ?thesis unfolding run by simp
qed

lemma log_signing_discipline:
  assumes t: "t = t1 @ sign_requests actors file outs @ t3"
    and log: "update_log channel current updated h actors r t1 file outs t3"
  shows "signing_discipline actors r t"
proof -
  have no_sign1: "filter is_sign t1 = []" and no_sign3: "filter is_sign t3 = []"
    using log
    by (auto simp: update_log_def filter_empty_conv
        dest: prepared_kind fetch_kind observed_kind submit_kind)
  have signs: "filter is_sign t = sign_requests actors file outs"
    using t no_sign1 no_sign3 by (simp add: filter_sign_requests)
  have no_submit: "\<forall>e \<in> set (t1 @ sign_requests actors file outs). \<not> is_submit e"
    using log by (auto simp: update_log_def dest: prepared_kind sign_requests_kind)
  have submitted: "length outs = length actors \<and> list_all completed outs \<and>
      filter is_sign post = []"
    if "t = pre @ sub # post" and "is_submit sub" for pre sub post
  proof -
    from that t have "(t1 @ sign_requests actors file outs) @ t3 = pre @ sub # post"
      by simp
    from split_prefix [where Q = is_submit, OF no_submit that(2) this]
    obtain pre' where t3: "t3 = pre' @ sub # post" by blast
    with no_sign3 have "filter is_sign post = []" by (simp split: if_splits)
    moreover from t3 log have "length outs = length actors \<and> list_all completed outs"
      by (auto simp: update_log_def)
    ultimately show ?thesis by simp
  qed
  have stopped: "(\<exists>e. r = Inl e) \<and> \<not> list_ex is_submit t" if "\<not> list_all completed outs"
  proof -
    from that log have "t3 = []" and "\<exists>e. r = Inl e"
      by (auto simp: update_log_def)
    with t no_submit show ?thesis by (auto simp: list_ex_iff)
  qed
  from log have "length outs \<le> length actors" by (simp add: update_log_def)
  with signs submitted stopped show ?thesis
    unfolding signing_discipline_def by blast
qed

lemma log_commit_confirmed:
  assumes t: "t = t1 @ sign_requests actors file outs @ t3"
    and log: "update_log channel current updated h actors r t1 file outs t3"
  shows "r = Inr () \<longleftrightarrow> commit_confirmed t"
proof -
  have "\<forall>e \<in> set (t1 @ sign_requests actors file outs). \<not> is_observed e"
    using log by (auto simp: update_log_def dest: prepared_kind sign_requests_kind)
  from commit_confirmed_append [OF this, of t3] t log show ?thesis
    by (simp add: update_log_def)
qed

lemma log_envelope_discipline:
  assumes t: "t = t1 @ sign_requests actors file outs @ t3"
    and log: "update_log channel current updated h actors r t1 file outs t3"
  shows "envelope_discipline channel t"
proof -
  have built: "Built env \<in> set t1" if "Built env \<in> set t" for env
    using that t log
    by (auto simp: update_log_def dest: sign_requests_kind fetch_kind observed_kind submit_kind)
  have no_submit: "\<forall>e \<in> set (t1 @ sign_requests actors file outs). \<not> is_submit e"
    using log by (auto simp: update_log_def dest: prepared_kind sign_requests_kind)
  have before: "\<exists>env. Built env \<in> set pre"
    if "t = pre @ sub # post" and "is_submit sub" for pre sub post
  proof -
    from that t have "(t1 @ sign_requests actors file outs) @ t3 = pre @ sub # post"
      by simp
    from split_prefix [where Q = is_submit, OF no_submit that(2) this]
    obtain pre' where pre: "pre = (t1 @ sign_requests actors file outs) @ pre'"
      and t3: "t3 = pre' @ sub # post"
      by blast
    from t3 log obtain env where "Built env \<in> set t1"
      by (auto simp: update_log_def)
    with pre show ?thesis by auto
  qed
  from built before log show ?thesis
    unfolding envelope_discipline_def update_log_def by fastforce
qed

lemmas flow_defs = ret_def fail_def bind_def emit_def expect_def call_def deferred_def
  filepath_Join_def peerAdminSession_def ordererAdminSession_def Eventually_Exit_def
  Expect_Say_def deref_def alloc_def store_def returned_def Clone_def
  UnmarshalBlockFromFile_def GetConfigBlock_def GetConfig_def CurrentConfigBlockNumber_def
  CreateSignedEnvelope_def write_update_def submit_and_wait_def UpdateConfig_def
  UpdateOrdererConfig_def set_ConsensusType_def UpdateConsensusMetadata_def

lemmas reference_defs = reference_lib_def reference_net_def reference_session_def
  reference_state_def reference_config_def two_configs_def

subsection \<open>The envelope\<close>

lemma reference_envelope_built:
  "Built \<lparr>EnvHeader = \<lparr>TypeTag = HeaderType_CONFIG_UPDATE, NamespaceId = ''ch'',
                        MsgVersion = 0, Epoch = 0\<rparr>,
          Update = [99, 104], EnvSignatures = []\<rparr>
   \<in> set (events (UpdateConfig reference_lib reference_net (Orderer ''orderer'' ''ord'') ''ch''
        (Some 0) (Some 1) (Peer ''peer0'' ''org1'') [Peer ''peer1'' ''org2''] two_configs))"
  by (simp add: flow_defs reference_defs)

text \<open>
  C5, as amended. In both update flows every envelope built carries the type
  \<^verbatim>\<open>CONFIG_UPDATE\<close>, the channel, message version 0 and epoch 0, and no signature:
  the flows build it with no signer. An envelope has been built before a command
  submits the update.
\<close>

theorem envelope_is_stamped_and_unsigned:
  "envelope_discipline channel
     (events (UpdateConfig lib n orderer channel current updated submitter additionalSigners s)) \<and>
   envelope_discipline channel
     (events (UpdateOrdererConfig lib n orderer channel current updated submitter
        ordererSigners s))"
  using UpdateConfig_log [of lib n orderer channel current updated submitter additionalSigners s]
    UpdateOrdererConfig_log [of lib n orderer channel current updated submitter ordererSigners s]
  by (auto intro: log_envelope_discipline)

theorem envelope_is_stamped_and_unsigned_witness:
  "envelope_discipline ''ch''
     (events (UpdateConfig reference_lib reference_net (Orderer ''orderer'' ''ord'') ''ch''
        (Some 0) (Some 1) (Peer ''peer0'' ''org1'') [Peer ''peer1'' ''org2''] two_configs)) \<and>
   Built \<lparr>EnvHeader = \<lparr>TypeTag = HeaderType_CONFIG_UPDATE, NamespaceId = ''ch'',
                        MsgVersion = 0, Epoch = 0\<rparr>,
          Update = [99, 104], EnvSignatures = []\<rparr>
   \<in> set (events (UpdateConfig reference_lib reference_net (Orderer ''orderer'' ''ord'') ''ch''
        (Some 0) (Some 1) (Peer ''peer0'' ''org1'') [Peer ''peer1'' ''org2''] two_configs)) \<and>
   envelope_discipline ''ch''
     (events (UpdateOrdererConfig reference_lib reference_net (Orderer ''orderer'' ''ord'') ''ch''
        (Some 0) (Some 1) (Peer ''peer0'' ''org1'') [Orderer ''orderer'' ''ord''] two_configs))"
  using envelope_is_stamped_and_unsigned [of "''ch''" reference_lib reference_net
      "Orderer ''orderer'' ''ord''" "Some 0" "Some 1" "Peer ''peer0'' ''org1''"
      "[Peer ''peer1'' ''org2'']" two_configs "[Orderer ''orderer'' ''ord'']"]
    reference_envelope_built
  by simp

text \<open>
  The envelope that \<^verbatim>\<open>UpdateConfig\<close> builds on the reference network has no signature
  at all, so none by the primary signer.
\<close>

theorem envelope_first_signature_counterexample:
  "Built \<lparr>EnvHeader = \<lparr>TypeTag = HeaderType_CONFIG_UPDATE, NamespaceId = ''ch'',
                        MsgVersion = 0, Epoch = 0\<rparr>,
          Update = [99, 104], EnvSignatures = []\<rparr>
   \<in> set (events (UpdateConfig reference_lib reference_net (Orderer ''orderer'' ''ord'') ''ch''
        (Some 0) (Some 1) (Peer ''peer0'' ''org1'') [] two_configs)) \<and>
   EnvSignatures \<lparr>EnvHeader = \<lparr>TypeTag = HeaderType_CONFIG_UPDATE, NamespaceId = ''ch'',
                        MsgVersion = 0, Epoch = 0\<rparr>,
          Update = [99, 104], EnvSignatures = []\<rparr> = []"
  by (simp add: flow_defs reference_defs)

subsection \<open>The signatures\<close>

lemma reference_UpdateConfig_refused:
  "outcome (UpdateConfig reference_lib reference_net (Orderer ''orderer'' ''ord'') ''ch''
        (Some 0) (Some 1) (Peer ''peer0'' ''org1'')
        [Peer ''peer1'' ''org2'', Peer ''peer9'' ''revoked'', Peer ''peer2'' ''org3'']
        two_configs) = Inl ExitError \<and>
   filter is_sign (events (UpdateConfig reference_lib reference_net (Orderer ''orderer'' ''ord'')
        ''ch'' (Some 0) (Some 1) (Peer ''peer0'' ''org1'')
        [Peer ''peer1'' ''org2'', Peer ''peer9'' ''revoked'', Peer ''peer2'' ''org3'']
        two_configs)) =
     [Session (PeerAdmin (Peer ''peer1'' ''org2'')) (SignConfigTx ''/tmp/updateConfig/update.pb'')
        (Some \<lparr>ExitCode = Some 0, Err = []\<rparr>),
      Session (PeerAdmin (Peer ''peer9'' ''revoked''))
        (SignConfigTx ''/tmp/updateConfig/update.pb'')
        (Some \<lparr>ExitCode = Some 1, Err = ''access denied''\<rparr>)] \<and>
   \<not> list_ex is_submit (events (UpdateConfig reference_lib reference_net
        (Orderer ''orderer'' ''ord'') ''ch'' (Some 0) (Some 1) (Peer ''peer0'' ''org1'')
        [Peer ''peer1'' ''org2'', Peer ''peer9'' ''revoked'', Peer ''peer2'' ''org3'']
        two_configs))"
  by (simp add: flow_defs reference_defs)

lemma reference_UpdateConfig_signs:
  "outcome (UpdateConfig reference_lib reference_net (Orderer ''orderer'' ''ord'') ''ch''
        (Some 0) (Some 1) (Peer ''peer0'' ''org1'') [Peer ''peer1'' ''org2'', Peer ''peer2'' ''org3'']
        two_configs) = Inr () \<and>
   filter is_sign (events (UpdateConfig reference_lib reference_net (Orderer ''orderer'' ''ord'') ''ch''
        (Some 0) (Some 1) (Peer ''peer0'' ''org1'') [Peer ''peer1'' ''org2'', Peer ''peer2'' ''org3'']
        two_configs)) =
     [Session (PeerAdmin (Peer ''peer1'' ''org2'')) (SignConfigTx ''/tmp/updateConfig/update.pb'')
        (Some \<lparr>ExitCode = Some 0, Err = []\<rparr>),
      Session (PeerAdmin (Peer ''peer2'' ''org3'')) (SignConfigTx ''/tmp/updateConfig/update.pb'')
        (Some \<lparr>ExitCode = Some 0, Err = []\<rparr>)]"
  by (simp add: flow_defs reference_defs)

lemma reference_UpdateOrdererConfig_signs:
  "outcome (UpdateOrdererConfig reference_lib reference_net (Orderer ''orderer'' ''ord'') ''ch''
        (Some 0) (Some 1) (Peer ''peer0'' ''org1'') [Orderer ''orderer'' ''ord''] two_configs)
     = Inr () \<and>
   filter is_sign (events (UpdateOrdererConfig reference_lib reference_net
        (Orderer ''orderer'' ''ord'') ''ch'' (Some 0) (Some 1) (Peer ''peer0'' ''org1'')
        [Orderer ''orderer'' ''ord''] two_configs)) =
     [Session (OrdererAdmin (Orderer ''orderer'' ''ord'') (Peer ''peer0'' ''org1''))
        (SignConfigTx ''/tmp/updateConfig/update.pb'') (Some \<lparr>ExitCode = Some 0, Err = []\<rparr>)]"
  by (simp add: flow_defs reference_defs)

text \<open>
  C6. In both update flows the commands that sign go to the additional signers in the
  order of the list, one after the other for as long as they exit with code 0. When a
  command submits the update, every additional signer has been asked, every signing
  command has exited with code 0, and no signing command comes after. When a signing
  command fails, the flow fails and no command submits.
\<close>

theorem signers_before_submission:
  "signing_discipline (map PeerAdmin additionalSigners)
     (outcome (UpdateConfig lib n orderer channel current updated submitter additionalSigners s))
     (events (UpdateConfig lib n orderer channel current updated submitter additionalSigners s)) \<and>
   signing_discipline (map (\<lambda>signer. OrdererAdmin signer submitter) ordererSigners)
     (outcome (UpdateOrdererConfig lib n orderer channel current updated submitter
        ordererSigners s))
     (events (UpdateOrdererConfig lib n orderer channel current updated submitter
        ordererSigners s))"
  using UpdateConfig_log [of lib n orderer channel current updated submitter additionalSigners s]
    UpdateOrdererConfig_log [of lib n orderer channel current updated submitter ordererSigners s]
  by (auto intro: log_signing_discipline)

theorem signers_before_submission_witness:
  "signing_discipline
     (map PeerAdmin [Peer ''peer1'' ''org2'', Peer ''peer2'' ''org3''])
     (outcome (UpdateConfig reference_lib reference_net (Orderer ''orderer'' ''ord'') ''ch''
        (Some 0) (Some 1) (Peer ''peer0'' ''org1'') [Peer ''peer1'' ''org2'', Peer ''peer2'' ''org3'']
        two_configs))
     (events (UpdateConfig reference_lib reference_net (Orderer ''orderer'' ''ord'') ''ch''
        (Some 0) (Some 1) (Peer ''peer0'' ''org1'') [Peer ''peer1'' ''org2'', Peer ''peer2'' ''org3'']
        two_configs)) \<and>
   filter is_sign (events (UpdateConfig reference_lib reference_net (Orderer ''orderer'' ''ord'') ''ch''
        (Some 0) (Some 1) (Peer ''peer0'' ''org1'') [Peer ''peer1'' ''org2'', Peer ''peer2'' ''org3'']
        two_configs)) =
     [Session (PeerAdmin (Peer ''peer1'' ''org2'')) (SignConfigTx ''/tmp/updateConfig/update.pb'')
        (Some \<lparr>ExitCode = Some 0, Err = []\<rparr>),
      Session (PeerAdmin (Peer ''peer2'' ''org3'')) (SignConfigTx ''/tmp/updateConfig/update.pb'')
        (Some \<lparr>ExitCode = Some 0, Err = []\<rparr>)] \<and>
   signing_discipline
     (map (\<lambda>signer. OrdererAdmin signer (Peer ''peer0'' ''org1'')) [Orderer ''orderer'' ''ord''])
     (outcome (UpdateOrdererConfig reference_lib reference_net (Orderer ''orderer'' ''ord'') ''ch''
        (Some 0) (Some 1) (Peer ''peer0'' ''org1'') [Orderer ''orderer'' ''ord''] two_configs))
     (events (UpdateOrdererConfig reference_lib reference_net (Orderer ''orderer'' ''ord'') ''ch''
        (Some 0) (Some 1) (Peer ''peer0'' ''org1'') [Orderer ''orderer'' ''ord''] two_configs)) \<and>
   filter is_sign (events (UpdateOrdererConfig reference_lib reference_net
        (Orderer ''orderer'' ''ord'') ''ch'' (Some 0) (Some 1) (Peer ''peer0'' ''org1'')
        [Orderer ''orderer'' ''ord''] two_configs)) =
     [Session (OrdererAdmin (Orderer ''orderer'' ''ord'') (Peer ''peer0'' ''org1''))
        (SignConfigTx ''/tmp/updateConfig/update.pb'') (Some \<lparr>ExitCode = Some 0, Err = []\<rparr>)] \<and>
   signing_discipline
     (map PeerAdmin [Peer ''peer1'' ''org2'', Peer ''peer9'' ''revoked'', Peer ''peer2'' ''org3''])
     (outcome (UpdateConfig reference_lib reference_net (Orderer ''orderer'' ''ord'') ''ch''
        (Some 0) (Some 1) (Peer ''peer0'' ''org1'')
        [Peer ''peer1'' ''org2'', Peer ''peer9'' ''revoked'', Peer ''peer2'' ''org3'']
        two_configs))
     (events (UpdateConfig reference_lib reference_net (Orderer ''orderer'' ''ord'') ''ch''
        (Some 0) (Some 1) (Peer ''peer0'' ''org1'')
        [Peer ''peer1'' ''org2'', Peer ''peer9'' ''revoked'', Peer ''peer2'' ''org3'']
        two_configs)) \<and>
   outcome (UpdateConfig reference_lib reference_net (Orderer ''orderer'' ''ord'') ''ch''
        (Some 0) (Some 1) (Peer ''peer0'' ''org1'')
        [Peer ''peer1'' ''org2'', Peer ''peer9'' ''revoked'', Peer ''peer2'' ''org3'']
        two_configs) = Inl ExitError \<and>
   filter is_sign (events (UpdateConfig reference_lib reference_net (Orderer ''orderer'' ''ord'')
        ''ch'' (Some 0) (Some 1) (Peer ''peer0'' ''org1'')
        [Peer ''peer1'' ''org2'', Peer ''peer9'' ''revoked'', Peer ''peer2'' ''org3'']
        two_configs)) =
     [Session (PeerAdmin (Peer ''peer1'' ''org2'')) (SignConfigTx ''/tmp/updateConfig/update.pb'')
        (Some \<lparr>ExitCode = Some 0, Err = []\<rparr>),
      Session (PeerAdmin (Peer ''peer9'' ''revoked''))
        (SignConfigTx ''/tmp/updateConfig/update.pb'')
        (Some \<lparr>ExitCode = Some 1, Err = ''access denied''\<rparr>)] \<and>
   \<not> list_ex is_submit (events (UpdateConfig reference_lib reference_net
        (Orderer ''orderer'' ''ord'') ''ch'' (Some 0) (Some 1) (Peer ''peer0'' ''org1'')
        [Peer ''peer1'' ''org2'', Peer ''peer9'' ''revoked'', Peer ''peer2'' ''org3'']
        two_configs))"
  using signers_before_submission [of "[Peer ''peer1'' ''org2'', Peer ''peer2'' ''org3'']"
      reference_lib reference_net "Orderer ''orderer'' ''ord''" "''ch''" "Some 0" "Some 1"
      "Peer ''peer0'' ''org1''" two_configs "[Orderer ''orderer'' ''ord'']"]
    signers_before_submission [of
      "[Peer ''peer1'' ''org2'', Peer ''peer9'' ''revoked'', Peer ''peer2'' ''org3'']"
      reference_lib reference_net "Orderer ''orderer'' ''ord''" "''ch''" "Some 0" "Some 1"
      "Peer ''peer0'' ''org1''" two_configs "[Orderer ''orderer'' ''ord'']"]
    reference_UpdateConfig_signs reference_UpdateOrdererConfig_signs
    reference_UpdateConfig_refused
  by blast

subsection \<open>The confirmation\<close>

lemma CurrentConfigBlockNumber_number_view:
  assumes "\<And>bs. number_view (ub bs) = number_view (UnmarshalBlock lib bs)"
  shows "CurrentConfigBlockNumber (lib\<lparr>UnmarshalBlock := ub\<rparr>) n p orderer channel =
         CurrentConfigBlockNumber lib n p orderer channel"
proof -
  have inner: "bind (UnmarshalBlockFromFile (lib\<lparr>UnmarshalBlock := ub\<rparr>) n f)
          (\<lambda>configBlock. bind (expect NilDereference (Block.Header configBlock)) (\<lambda>header.
             bind (emit (Observed (Number header))) (\<lambda>_. ret (Number header)))) =
        bind (UnmarshalBlockFromFile lib n f)
          (\<lambda>configBlock. bind (expect NilDereference (Block.Header configBlock)) (\<lambda>header.
             bind (emit (Observed (Number header))) (\<lambda>_. ret (Number header))))" for f
  proof (rule ext)
    fix s :: "'a state"
    show "bind (UnmarshalBlockFromFile (lib\<lparr>UnmarshalBlock := ub\<rparr>) n f)
          (\<lambda>configBlock. bind (expect NilDereference (Block.Header configBlock)) (\<lambda>header.
             bind (emit (Observed (Number header))) (\<lambda>_. ret (Number header)))) s =
        bind (UnmarshalBlockFromFile lib n f)
          (\<lambda>configBlock. bind (expect NilDereference (Block.Header configBlock)) (\<lambda>header.
             bind (emit (Observed (Number header))) (\<lambda>_. ret (Number header)))) s"
    proof (cases "ReadFile n f (world s)")
      case (Pair r w)
      show ?thesis
      proof (cases r)
        case None
        with Pair show ?thesis
          by (simp add: UnmarshalBlockFromFile_def bind_def step_defs)
      next
        case (Some bs)
        with Pair assms [of bs] show ?thesis
          by (cases "ub bs"; cases "UnmarshalBlock lib bs")
            (auto simp: UnmarshalBlockFromFile_def bind_def step_defs number_view_def
              map_option_case split: option.splits)
      qed
    qed
  qed
  show ?thesis
    unfolding CurrentConfigBlockNumber_def inner ..
qed

lemma CreateSignedEnvelope_UnmarshalBlock:
  "CreateSignedEnvelope (lib\<lparr>UnmarshalBlock := ub\<rparr>) txType channelID signer dataMsg
     msgVersion epoch =
   CreateSignedEnvelope lib txType channelID signer dataMsg msgVersion epoch"
  by (simp add: CreateSignedEnvelope_def split: option.splits)

lemma write_update_UnmarshalBlock:
  "write_update (lib\<lparr>UnmarshalBlock := ub\<rparr>) n channel current updated file =
   write_update lib n channel current updated file"
  by (simp add: write_update_def CreateSignedEnvelope_UnmarshalBlock)

lemma submit_and_wait_number_view:
  assumes "\<And>bs. number_view (ub bs) = number_view (UnmarshalBlock lib bs)"
  shows "submit_and_wait (lib\<lparr>UnmarshalBlock := ub\<rparr>) n orderer channel submitter file =
         submit_and_wait lib n orderer channel submitter file"
  by (simp add: submit_and_wait_def CurrentConfigBlockNumber_number_view [OF assms])

lemma UpdateConfig_number_view:
  assumes "\<And>bs. number_view (ub bs) = number_view (UnmarshalBlock lib bs)"
  shows "UpdateConfig (lib\<lparr>UnmarshalBlock := ub\<rparr>) n orderer channel current updated submitter
           signers = UpdateConfig lib n orderer channel current updated submitter signers"
  by (simp add: UpdateConfig_def submit_and_wait_number_view [OF assms]
      write_update_UnmarshalBlock)

lemma UpdateOrdererConfig_number_view:
  assumes "\<And>bs. number_view (ub bs) = number_view (UnmarshalBlock lib bs)"
  shows "UpdateOrdererConfig (lib\<lparr>UnmarshalBlock := ub\<rparr>) n orderer channel current updated
           submitter signers =
         UpdateOrdererConfig lib n orderer channel current updated submitter signers"
  by (simp add: UpdateOrdererConfig_def submit_and_wait_number_view [OF assms]
      write_update_UnmarshalBlock)

lemma reference_frozen_times_out:
  "outcome (UpdateConfig reference_lib reference_net (Orderer ''orderer'' ''ord'') ''frozen''
        (Some 0) (Some 1) (Peer ''peer0'' ''org1'') [Peer ''peer1'' ''org2''] two_configs)
     = Inl TimeoutError"
  by (simp add: flow_defs reference_defs)

lemma reference_runs_succeed:
  "outcome (UpdateConfig reference_lib reference_net (Orderer ''orderer'' ''ord'') ''ch''
        (Some 0) (Some 1) (Peer ''peer0'' ''org1'') [Peer ''peer1'' ''org2''] two_configs)
     = Inr () \<and>
   outcome (UpdateOrdererConfig reference_lib reference_net (Orderer ''orderer'' ''ord'') ''ch''
        (Some 0) (Some 1) (Peer ''peer0'' ''org1'') [Orderer ''orderer'' ''ord''] two_configs)
     = Inr ()"
  by (simp add: flow_defs reference_defs)

lemma headers_only_number_view:
  "number_view (headers_only lib bs) = number_view (UnmarshalBlock lib bs)"
  by (simp add: number_view_def headers_only_def option.map_comp comp_def)

text \<open>
  C7. In both update flows the block number read just before the update is submitted is
  the baseline, and the flow succeeds exactly when its log ends, after the submission,
  with a block number read that is greater than the baseline. Of a fetched block the
  flows use the number in its header and nothing else: a decoder that gives blocks with
  the same numbers and other contents gives the same run.
\<close>

theorem commit_confirmed_by_greater_number:
  "(outcome (UpdateConfig lib n orderer channel current updated submitter additionalSigners s)
      = Inr () \<longleftrightarrow>
    commit_confirmed
      (events (UpdateConfig lib n orderer channel current updated submitter additionalSigners s))) \<and>
   (outcome (UpdateOrdererConfig lib n orderer channel current updated submitter ordererSigners s)
      = Inr () \<longleftrightarrow>
    commit_confirmed
      (events (UpdateOrdererConfig lib n orderer channel current updated submitter
         ordererSigners s))) \<and>
   ((\<forall>bs. number_view (ub bs) = number_view (UnmarshalBlock lib bs)) \<longrightarrow>
      UpdateConfig (lib\<lparr>UnmarshalBlock := ub\<rparr>) n orderer channel current updated submitter
        additionalSigners s =
      UpdateConfig lib n orderer channel current updated submitter additionalSigners s \<and>
      UpdateOrdererConfig (lib\<lparr>UnmarshalBlock := ub\<rparr>) n orderer channel current updated
        submitter ordererSigners s =
      UpdateOrdererConfig lib n orderer channel current updated submitter ordererSigners s)"
proof (intro conjI impI)
  from UpdateConfig_log [of lib n orderer channel current updated submitter additionalSigners s]
  show "outcome (UpdateConfig lib n orderer channel current updated submitter additionalSigners s)
      = Inr () \<longleftrightarrow>
    commit_confirmed
      (events (UpdateConfig lib n orderer channel current updated submitter additionalSigners s))"
    by (auto dest: log_commit_confirmed)
  from UpdateOrdererConfig_log [of lib n orderer channel current updated submitter
      ordererSigners s]
  show "outcome (UpdateOrdererConfig lib n orderer channel current updated submitter
        ordererSigners s) = Inr () \<longleftrightarrow>
    commit_confirmed
      (events (UpdateOrdererConfig lib n orderer channel current updated submitter
         ordererSigners s))"
    by (auto dest: log_commit_confirmed)
next
  assume same: "\<forall>bs. number_view (ub bs) = number_view (UnmarshalBlock lib bs)"
  then show "UpdateConfig (lib\<lparr>UnmarshalBlock := ub\<rparr>) n orderer channel current updated
        submitter additionalSigners s =
      UpdateConfig lib n orderer channel current updated submitter additionalSigners s"
    by (simp add: UpdateConfig_number_view)
  from same show "UpdateOrdererConfig (lib\<lparr>UnmarshalBlock := ub\<rparr>) n orderer channel current
        updated submitter ordererSigners s =
      UpdateOrdererConfig lib n orderer channel current updated submitter ordererSigners s"
    by (simp add: UpdateOrdererConfig_number_view)
qed

theorem commit_confirmed_by_greater_number_witness:
  "outcome (UpdateConfig reference_lib reference_net (Orderer ''orderer'' ''ord'') ''ch''
        (Some 0) (Some 1) (Peer ''peer0'' ''org1'') [Peer ''peer1'' ''org2''] two_configs)
     = Inr () \<and>
   commit_confirmed
     (events (UpdateConfig reference_lib reference_net (Orderer ''orderer'' ''ord'') ''ch''
        (Some 0) (Some 1) (Peer ''peer0'' ''org1'') [Peer ''peer1'' ''org2''] two_configs)) \<and>
   outcome (UpdateOrdererConfig reference_lib reference_net (Orderer ''orderer'' ''ord'') ''ch''
        (Some 0) (Some 1) (Peer ''peer0'' ''org1'') [Orderer ''orderer'' ''ord''] two_configs)
     = Inr () \<and>
   commit_confirmed
     (events (UpdateOrdererConfig reference_lib reference_net (Orderer ''orderer'' ''ord'')
        ''ch'' (Some 0) (Some 1) (Peer ''peer0'' ''org1'') [Orderer ''orderer'' ''ord'']
        two_configs)) \<and>
   (\<forall>bs. number_view (headers_only reference_lib bs) =
          number_view (UnmarshalBlock reference_lib bs)) \<and>
   UpdateConfig (reference_lib\<lparr>UnmarshalBlock := headers_only reference_lib\<rparr>) reference_net
     (Orderer ''orderer'' ''ord'') ''ch'' (Some 0) (Some 1) (Peer ''peer0'' ''org1'')
     [Peer ''peer1'' ''org2''] two_configs =
   UpdateConfig reference_lib reference_net (Orderer ''orderer'' ''ord'') ''ch''
     (Some 0) (Some 1) (Peer ''peer0'' ''org1'') [Peer ''peer1'' ''org2''] two_configs \<and>
   UpdateOrdererConfig (reference_lib\<lparr>UnmarshalBlock := headers_only reference_lib\<rparr>)
     reference_net (Orderer ''orderer'' ''ord'') ''ch'' (Some 0) (Some 1)
     (Peer ''peer0'' ''org1'') [Orderer ''orderer'' ''ord''] two_configs =
   UpdateOrdererConfig reference_lib reference_net (Orderer ''orderer'' ''ord'') ''ch''
     (Some 0) (Some 1) (Peer ''peer0'' ''org1'') [Orderer ''orderer'' ''ord''] two_configs \<and>
   outcome (UpdateConfig reference_lib reference_net (Orderer ''orderer'' ''ord'') ''frozen''
        (Some 0) (Some 1) (Peer ''peer0'' ''org1'') [Peer ''peer1'' ''org2''] two_configs)
     = Inl TimeoutError \<and>
   \<not> commit_confirmed
     (events (UpdateConfig reference_lib reference_net (Orderer ''orderer'' ''ord'') ''frozen''
        (Some 0) (Some 1) (Peer ''peer0'' ''org1'') [Peer ''peer1'' ''org2''] two_configs))"
  using commit_confirmed_by_greater_number [of reference_lib reference_net
      "Orderer ''orderer'' ''ord''" "''ch''" "Some 0" "Some 1" "Peer ''peer0'' ''org1''"
      "[Peer ''peer1'' ''org2'']" two_configs "[Orderer ''orderer'' ''ord'']"
      "headers_only reference_lib"]
    commit_confirmed_by_greater_number [of reference_lib reference_net
      "Orderer ''orderer'' ''ord''" "''frozen''" "Some 0" "Some 1" "Peer ''peer0'' ''org1''"
      "[Peer ''peer1'' ''org2'']" two_configs "[Orderer ''orderer'' ''ord'']"
      "headers_only reference_lib"]
    reference_runs_succeed reference_frozen_times_out
    headers_only_number_view [of reference_lib]
  by simp

subsection \<open>Updating the consensus metadata\<close>

lemma Computed_not_fetch: "list_all is_fetch t \<Longrightarrow> Computed cur upd \<notin> set t"
  by (auto simp: list_all_iff)

lemma UpdateOrdererConfig_Computed:
  assumes "UpdateOrdererConfig lib n orderer channel current updated submitter signers s
             = (r, s', t)"
  shows "heap s' = heap s \<and>
         (\<forall>cur upd. Computed cur upd \<in> set t \<longrightarrow>
            (\<exists>a b. current = Some a \<and> a < length (heap s) \<and> cur = heap s ! a \<and>
                   updated = Some b \<and> b < length (heap s) \<and> upd = heap s ! b))"
proof -
  from UpdateOrdererConfig_log [of lib n orderer channel current updated submitter signers s]
  obtain t1 path outs t3 where heap: "heap s' = heap s"
    and t: "t = t1 @ sign_requests (map (\<lambda>signer. OrdererAdmin signer submitter) signers)
                  path outs @ t3"
    and log: "update_log channel current updated (heap s)
        (map (\<lambda>signer. OrdererAdmin signer submitter) signers) r t1 path outs t3"
    unfolding assms by auto
  have "Computed cur upd \<in> set t1" if "Computed cur upd \<in> set t" for cur upd
    using that t log
    by (auto simp: update_log_def dest: sign_requests_kind fetch_kind observed_kind submit_kind)
  with heap log show ?thesis
    unfolding update_log_def by blast
qed

lemma UpdateConsensusMetadata_log:
  assumes get: "GetConfig lib n peer orderer channel s = (rg, s1, t1)"
    and run: "UpdateConsensusMetadata lib n peer orderer channel mutate s = (r, s', t)"
  shows "(\<forall>a. rg = Inr (Some a) \<longrightarrow>
            a < length (heap s1) \<and> a < length (heap s') \<and> heap s' ! a = heap s1 ! a) \<and>
         (\<forall>cur upd. Computed cur upd \<in> set t \<longrightarrow>
            (\<exists>a cg og old ct newMetadata v.
               rg = Inr (Some a) \<and> cur = heap s1 ! a \<and>
               ChannelGroup cur = Some cg \<and> Groups cg ''Orderer'' = Some og \<and>
               Values og ''ConsensusType'' = Some old \<and>
               Unmarshal_ConsensusType lib (Value old) = Some ct \<and>
               mutate (Metadata ct) = Inr newMetadata \<and>
               Marshal_ConsensusType lib (ct\<lparr>Metadata := newMetadata\<rparr>) = Some v \<and>
               set_ConsensusType \<lparr>Version = 0, Value = v, ModPolicy = ''Admins''\<rparr> cur = Some upd))"
  using run unfolding UpdateConsensusMetadata_def
proof (cases rule: bindE)
  case (failed e)
  with get GetConfig_shape [OF get] show ?thesis
    by (auto dest: Computed_not_fetch)
next
  case (went_on config s1' t1' t2)
  with get have rg: "rg = Inr config" "s1' = s1" "t1' = t1" by simp_all
  note shape = GetConfig_shape [OF get]
  show ?thesis
  proof (cases config)
    case None
    with went_on(2) rg shape went_on(3) show ?thesis
      by (auto simp: bind_def Clone_def deref_def step_defs dest: Computed_not_fetch)
  next
    case (Some a)
    with shape rg obtain c where a: "a = length (heap s)" "heap s1 = heap s @ [c]"
      by auto
    then have c: "heap s1 ! a = c" "a < length (heap s1)" by simp_all
    let ?s2 = "s1\<lparr>heap := heap s1 @ [c]\<rparr>"
    have clone: "Clone config s1 = (Inr (Some (length (heap s1))), ?s2, [])"
      using Some c by (simp add: Clone_def bind_def deref_def alloc_def step_defs)
    from went_on(2) rg clone
    have rest: "bind (deref (Some (length (heap s1)))) (\<lambda>c.
      bind (expect NilDereference (ChannelGroup c)) (\<lambda>channelGroup.
      bind (expect NilDereference (Groups channelGroup ''Orderer'')) (\<lambda>ordererGroup.
      bind (expect NilDereference (Values ordererGroup ''ConsensusType''))
        (\<lambda>consensusTypeConfigValue.
      bind (expect DecodeError
              (Unmarshal_ConsensusType lib (Value consensusTypeConfigValue)))
        (\<lambda>consensusTypeValue.
      bind (returned (mutate (Metadata consensusTypeValue))) (\<lambda>newMetadata.
      bind (expect SerializationError
              (Marshal_ConsensusType lib (consensusTypeValue\<lparr>Metadata := newMetadata\<rparr>))) (\<lambda>v.
      bind (deref (Some (length (heap s1)))) (\<lambda>c'.
      bind (expect NilDereference
              (set_ConsensusType \<lparr>Version = 0, Value = v, ModPolicy = ''Admins''\<rparr> c')) (\<lambda>c''.
      bind (store (Some (length (heap s1))) c'') (\<lambda>_.
      UpdateOrdererConfig lib n orderer channel config (Some (length (heap s1))) peer
        [orderer])))))))))) ?s2 = (r, s', t2)"
      by (simp add: bind_def)
    from rest \<open>t = t1' @ t2\<close> rg c Some GetConfig_shape [OF get] show ?thesis
      by (elim bindE)
        (auto simp: step_defs deref_def store_def nth_append
          dest!: UpdateOrdererConfig_Computed dest: Computed_not_fetch
          split: option.splits if_splits)
  qed
qed

lemma reference_GetConfig:
  "outcome (GetConfig reference_lib reference_net (Peer ''peer0'' ''org1'')
      (Orderer ''orderer'' ''ord'') ''ch'' (reference_state v)) = Inr (Some 0) \<and>
   heap (final (GetConfig reference_lib reference_net (Peer ''peer0'' ''org1'')
      (Orderer ''orderer'' ''ord'') ''ch'' (reference_state v))) = [reference_config v] \<and>
   list_all is_fetch (events (GetConfig reference_lib reference_net (Peer ''peer0'' ''org1'')
      (Orderer ''orderer'' ''ord'') ''ch'' (reference_state v)))"
  by (simp add: flow_defs reference_defs)

lemma reference_AddConsenter_Computed:
  "Computed (reference_config (1 # put_Metadata metadata_AB))
     (reference_updated (1 # put_Metadata metadata_ABC))
   \<in> set (events (UpdateConsensusMetadata reference_lib reference_net (Peer ''peer0'' ''org1'')
      (Orderer ''orderer'' ''ord'') ''ch'' (AddConsenter_mutator reference_lib consenter_C)
      (reference_state (1 # put_Metadata metadata_AB))))"
  by (simp add: flow_defs reference_defs AddConsenter_mutator_def get_put_Metadata
      metadata_AB_def metadata_ABC_def reference_updated_def)

text \<open>
  C9. \<^verbatim>\<open>UpdateConsensusMetadata\<close> writes to the clone only. When \<^verbatim>\<open>GetConfig\<close> has
  returned a config, the cell of that config holds at the end of the flow what it held
  when it was fetched, and the tree handed to the diff as the current one is the config
  as fetched.
\<close>

theorem fetched_config_is_not_mutated:
  "(\<forall>a. outcome (GetConfig lib network peer orderer channel s) = Inr (Some a) \<longrightarrow>
      a < length (heap (final (UpdateConsensusMetadata lib network peer orderer channel
                                 mutateMetadata s))) \<and>
      heap (final (UpdateConsensusMetadata lib network peer orderer channel mutateMetadata s)) ! a
        = heap (final (GetConfig lib network peer orderer channel s)) ! a) \<and>
   (\<forall>cur upd.
      Computed cur upd \<in> set (events (UpdateConsensusMetadata lib network peer orderer channel
                                        mutateMetadata s)) \<longrightarrow>
      (\<exists>a. outcome (GetConfig lib network peer orderer channel s) = Inr (Some a) \<and>
           cur = heap (final (GetConfig lib network peer orderer channel s)) ! a))"
proof -
  obtain rg s1 t1 where get: "GetConfig lib network peer orderer channel s = (rg, s1, t1)"
    by (cases "GetConfig lib network peer orderer channel s")
  obtain r s' t where run:
    "UpdateConsensusMetadata lib network peer orderer channel mutateMetadata s = (r, s', t)"
    by (cases "UpdateConsensusMetadata lib network peer orderer channel mutateMetadata s")
  from UpdateConsensusMetadata_log [OF get run] show ?thesis
    unfolding get run by (simp, blast)
qed

theorem fetched_config_is_not_mutated_witness:
  "outcome (GetConfig reference_lib reference_net (Peer ''peer0'' ''org1'')
      (Orderer ''orderer'' ''ord'') ''ch'' (reference_state (1 # put_Metadata metadata_AB)))
     = Inr (Some 0) \<and>
   heap (final (GetConfig reference_lib reference_net (Peer ''peer0'' ''org1'')
      (Orderer ''orderer'' ''ord'') ''ch'' (reference_state (1 # put_Metadata metadata_AB)))) ! 0
     = reference_config (1 # put_Metadata metadata_AB) \<and>
   heap (final (UpdateConsensusMetadata reference_lib reference_net (Peer ''peer0'' ''org1'')
      (Orderer ''orderer'' ''ord'') ''ch'' (AddConsenter_mutator reference_lib consenter_C)
      (reference_state (1 # put_Metadata metadata_AB)))) ! 0
     = reference_config (1 # put_Metadata metadata_AB) \<and>
   Computed (reference_config (1 # put_Metadata metadata_AB))
     (reference_updated (1 # put_Metadata metadata_ABC))
   \<in> set (events (UpdateConsensusMetadata reference_lib reference_net (Peer ''peer0'' ''org1'')
      (Orderer ''orderer'' ''ord'') ''ch'' (AddConsenter_mutator reference_lib consenter_C)
      (reference_state (1 # put_Metadata metadata_AB))))"
  using fetched_config_is_not_mutated [of reference_lib reference_net "Peer ''peer0'' ''org1''"
      "Orderer ''orderer'' ''ord''" "''ch''" "reference_state (1 # put_Metadata metadata_AB)"
      "AddConsenter_mutator reference_lib consenter_C"]
    reference_GetConfig [of "1 # put_Metadata metadata_AB"]
    reference_AddConsenter_Computed
  by simp

text \<open>
  C10. The desired tree that \<^verbatim>\<open>UpdateConsensusMetadata\<close> hands to the diff is the
  current tree with one change: in the \<^verbatim>\<open>Orderer\<close> group, the value
  \<^verbatim>\<open>ConsensusType\<close> is a new value with version 0, the policy \<^verbatim>\<open>Admins\<close> and the
  re-encoded consensus type with the mutated metadata, whatever version and policy the
  old value had.
\<close>

theorem desired_config_differs_at_ConsensusType_only:
  assumes "Computed cur upd \<in> set (events (UpdateConsensusMetadata lib network peer orderer
             channel mutateMetadata s))"
  shows "\<exists>cg og old ct newMetadata v.
           ChannelGroup cur = Some cg \<and> Groups cg ''Orderer'' = Some og \<and>
           Values og ''ConsensusType'' = Some old \<and>
           Unmarshal_ConsensusType lib (Value old) = Some ct \<and>
           mutateMetadata (Metadata ct) = Inr newMetadata \<and>
           Marshal_ConsensusType lib (ct\<lparr>Metadata := newMetadata\<rparr>) = Some v \<and>
           upd = cur\<lparr>ChannelGroup := Some (ConfigGroup (GroupVersion cg)
                   ((Groups cg)(''Orderer'' \<mapsto> ConfigGroup (GroupVersion og) (Groups og)
                      ((Values og)(''ConsensusType'' \<mapsto>
                         \<lparr>Version = 0, Value = v, ModPolicy = ''Admins''\<rparr>))
                      (Policies og) (GroupModPolicy og)))
                   (Values cg) (Policies cg) (GroupModPolicy cg))\<rparr>"
proof -
  obtain rg s1 t1 where get: "GetConfig lib network peer orderer channel s = (rg, s1, t1)"
    by (cases "GetConfig lib network peer orderer channel s")
  obtain r s' t where run:
    "UpdateConsensusMetadata lib network peer orderer channel mutateMetadata s = (r, s', t)"
    by (cases "UpdateConsensusMetadata lib network peer orderer channel mutateMetadata s")
  from assms run have "Computed cur upd \<in> set t" by simp
  with UpdateConsensusMetadata_log [OF get run]
  obtain cg og old ct newMetadata v where
    "ChannelGroup cur = Some cg" "Groups cg ''Orderer'' = Some og"
    "Values og ''ConsensusType'' = Some old"
    "Unmarshal_ConsensusType lib (Value old) = Some ct"
    "mutateMetadata (Metadata ct) = Inr newMetadata"
    "Marshal_ConsensusType lib (ct\<lparr>Metadata := newMetadata\<rparr>) = Some v"
    "set_ConsensusType \<lparr>Version = 0, Value = v, ModPolicy = ''Admins''\<rparr> cur = Some upd"
    by blast
  then show ?thesis
    by (auto simp: set_ConsensusType_def)
qed

theorem desired_config_differs_at_ConsensusType_only_witness:
  "Computed (reference_config (1 # put_Metadata metadata_AB))
     (reference_updated (1 # put_Metadata metadata_ABC))
   \<in> set (events (UpdateConsensusMetadata reference_lib reference_net (Peer ''peer0'' ''org1'')
      (Orderer ''orderer'' ''ord'') ''ch'' (AddConsenter_mutator reference_lib consenter_C)
      (reference_state (1 # put_Metadata metadata_AB)))) \<and>
   (\<exists>cg og old ct newMetadata v.
      ChannelGroup (reference_config (1 # put_Metadata metadata_AB)) = Some cg \<and>
      Groups cg ''Orderer'' = Some og \<and>
      Values og ''ConsensusType'' = Some old \<and>
      Unmarshal_ConsensusType reference_lib (Value old) = Some ct \<and>
      AddConsenter_mutator reference_lib consenter_C (Metadata ct) = Inr newMetadata \<and>
      Marshal_ConsensusType reference_lib (ct\<lparr>Metadata := newMetadata\<rparr>) = Some v \<and>
      reference_updated (1 # put_Metadata metadata_ABC) =
        (reference_config (1 # put_Metadata metadata_AB))
          \<lparr>ChannelGroup := Some (ConfigGroup (GroupVersion cg)
             ((Groups cg)(''Orderer'' \<mapsto> ConfigGroup (GroupVersion og) (Groups og)
                ((Values og)(''ConsensusType'' \<mapsto>
                   \<lparr>Version = 0, Value = v, ModPolicy = ''Admins''\<rparr>))
                (Policies og) (GroupModPolicy og)))
             (Values cg) (Policies cg) (GroupModPolicy cg))\<rparr>)"
  using desired_config_differs_at_ConsensusType_only [OF reference_AddConsenter_Computed]
    reference_AddConsenter_Computed
  by simp

lemma UpdateConsensusMetadata_decode_failure:
  assumes get: "GetConfig lib n peer orderer channel s = (Inr (Some a), s1, t1)"
    and cg: "ChannelGroup (heap s1 ! a) = Some cg"
    and og: "Groups cg ''Orderer'' = Some og"
    and cv: "Values og ''ConsensusType'' = Some cv"
    and fails: "Unmarshal_ConsensusType lib (Value cv) = None \<or>
       (\<exists>ct. Unmarshal_ConsensusType lib (Value cv) = Some ct \<and>
             mutate (Metadata ct) = Inl DecodeError)"
  shows "UpdateConsensusMetadata lib n peer orderer channel mutate s =
           (Inl DecodeError, s1\<lparr>heap := heap s1 @ [heap s1 ! a]\<rparr>, t1)"
proof -
  from GetConfig_shape [OF get] have "a < length (heap s1)" by auto
  with get cg og cv fails show ?thesis
    by (auto simp: UpdateConsensusMetadata_def bind_def Clone_def deref_def alloc_def
        step_defs nth_append)
qed

text \<open>
  C8. When the consensus-type value of the fetched config cannot be decoded, or it can
  and its metadata cannot, \<^verbatim>\<open>AddConsenter\<close> and \<^verbatim>\<open>RemoveConsenter\<close> fail with a
  decode error (and so does \<^verbatim>\<open>UpdateConsensusMetadata\<close> with any mutator, in the
  first case). The log is that of fetching the config: no command signs or submits.
  The heap holds the fetched config and its clone, both as fetched.
\<close>

theorem decode_failure_aborts_update:
  assumes "outcome (GetConfig lib n peer orderer channel s) = Inr (Some a)"
    and "ChannelGroup (heap (final (GetConfig lib n peer orderer channel s)) ! a) = Some cg"
    and "Groups cg ''Orderer'' = Some og"
    and "Values og ''ConsensusType'' = Some cv"
    and "Unmarshal_ConsensusType lib (Value cv) = None \<or>
         (\<exists>ct. Unmarshal_ConsensusType lib (Value cv) = Some ct \<and>
               Unmarshal_Metadata lib (Metadata ct) = None)"
  shows "AddConsenter lib n peer orderer channel consenter s =
           (Inl DecodeError,
            (final (GetConfig lib n peer orderer channel s))
              \<lparr>heap := heap (final (GetConfig lib n peer orderer channel s)) @
                         [heap (final (GetConfig lib n peer orderer channel s)) ! a]\<rparr>,
            events (GetConfig lib n peer orderer channel s)) \<and>
         RemoveConsenter lib n peer orderer channel certificate s =
           (Inl DecodeError,
            (final (GetConfig lib n peer orderer channel s))
              \<lparr>heap := heap (final (GetConfig lib n peer orderer channel s)) @
                         [heap (final (GetConfig lib n peer orderer channel s)) ! a]\<rparr>,
            events (GetConfig lib n peer orderer channel s)) \<and>
         (Unmarshal_ConsensusType lib (Value cv) = None \<longrightarrow>
            UpdateConsensusMetadata lib n peer orderer channel mutateMetadata s =
              (Inl DecodeError,
               (final (GetConfig lib n peer orderer channel s))
                 \<lparr>heap := heap (final (GetConfig lib n peer orderer channel s)) @
                            [heap (final (GetConfig lib n peer orderer channel s)) ! a]\<rparr>,
               events (GetConfig lib n peer orderer channel s))) \<and>
         list_all is_fetch (events (GetConfig lib n peer orderer channel s))"
proof -
  obtain rg s1 t1 where get: "GetConfig lib n peer orderer channel s = (rg, s1, t1)"
    by (cases "GetConfig lib n peer orderer channel s")
  with assms(1) have get': "GetConfig lib n peer orderer channel s = (Inr (Some a), s1, t1)"
    by simp
  from assms(2) get have cg: "ChannelGroup (heap s1 ! a) = Some cg" by simp
  have add: "Unmarshal_ConsensusType lib (Value cv) = None \<or>
       (\<exists>ct. Unmarshal_ConsensusType lib (Value cv) = Some ct \<and>
             AddConsenter_mutator lib consenter (Metadata ct) = Inl DecodeError)"
    using assms(5) by (auto simp: AddConsenter_mutator_def)
  have remove: "Unmarshal_ConsensusType lib (Value cv) = None \<or>
       (\<exists>ct. Unmarshal_ConsensusType lib (Value cv) = Some ct \<and>
             RemoveConsenter_mutator lib certificate (Metadata ct) = Inl DecodeError)"
    using assms(5) by (auto simp: RemoveConsenter_mutator_def)
  have any: "UpdateConsensusMetadata lib n peer orderer channel mutateMetadata s =
      (Inl DecodeError, s1\<lparr>heap := heap s1 @ [heap s1 ! a]\<rparr>, t1)"
    if "Unmarshal_ConsensusType lib (Value cv) = None"
    using that by (intro UpdateConsensusMetadata_decode_failure [OF get' cg assms(3,4)]) simp
  from UpdateConsensusMetadata_decode_failure [OF get' cg assms(3,4) add]
    UpdateConsensusMetadata_decode_failure [OF get' cg assms(3,4) remove]
    any GetConfig_shape [OF get']
  show ?thesis
    unfolding get' by (simp add: AddConsenter_def RemoveConsenter_def)
qed

theorem decode_failure_aborts_update_witness:
  "outcome (GetConfig reference_lib reference_net (Peer ''peer0'' ''org1'')
      (Orderer ''orderer'' ''ord'') ''ch'' (reference_state [1, 200])) = Inr (Some 0) \<and>
   ChannelGroup (heap (final (GetConfig reference_lib reference_net (Peer ''peer0'' ''org1'')
      (Orderer ''orderer'' ''ord'') ''ch'' (reference_state [1, 200]))) ! 0) =
     Some (ConfigGroup 0
        (Map.empty(''Orderer'' \<mapsto> ConfigGroup 0 Map.empty
           (Map.empty(''ConsensusType'' \<mapsto>
              \<lparr>Version = 3, Value = [1, 200], ModPolicy = ''Writers''\<rparr>))
           Map.empty ''Admins''))
        Map.empty Map.empty ''Admins'') \<and>
   Unmarshal_ConsensusType reference_lib [1, 200] =
     Some \<lparr>Type = ''etcdraft'', Metadata = [200]\<rparr> \<and>
   Unmarshal_Metadata reference_lib [200] = None \<and>
   outcome (AddConsenter reference_lib reference_net (Peer ''peer0'' ''org1'')
      (Orderer ''orderer'' ''ord'') ''ch'' consenter_C (reference_state [1, 200]))
     = Inl DecodeError \<and>
   heap (final (AddConsenter reference_lib reference_net (Peer ''peer0'' ''org1'')
      (Orderer ''orderer'' ''ord'') ''ch'' consenter_C (reference_state [1, 200])))
     = [reference_config [1, 200], reference_config [1, 200]] \<and>
   outcome (RemoveConsenter reference_lib reference_net (Peer ''peer0'' ''org1'')
      (Orderer ''orderer'' ''ord'') ''ch'' [66, 49] (reference_state [1, 200]))
     = Inl DecodeError \<and>
   list_all is_fetch (events (AddConsenter reference_lib reference_net (Peer ''peer0'' ''org1'')
      (Orderer ''orderer'' ''ord'') ''ch'' consenter_C (reference_state [1, 200])))"
proof -
  have decode: "Unmarshal_ConsensusType reference_lib [1, 200] =
      Some \<lparr>Type = ''etcdraft'', Metadata = [200]\<rparr>"
    "Unmarshal_Metadata reference_lib [200] = None"
    by (simp_all add: reference_lib_def get_Metadata_def)
  have fetched: "ChannelGroup (heap (final (GetConfig reference_lib reference_net
      (Peer ''peer0'' ''org1'') (Orderer ''orderer'' ''ord'') ''ch''
      (reference_state [1, 200]))) ! 0) =
     Some (ConfigGroup 0
        (Map.empty(''Orderer'' \<mapsto> ConfigGroup 0 Map.empty
           (Map.empty(''ConsensusType'' \<mapsto>
              \<lparr>Version = 3, Value = [1, 200], ModPolicy = ''Writers''\<rparr>))
           Map.empty ''Admins''))
        Map.empty Map.empty ''Admins'')"
    using reference_GetConfig [of "[1, 200]"] by (simp add: reference_config_def)
  have failing: "Unmarshal_ConsensusType reference_lib
        (Value \<lparr>Version = 3, Value = [1, 200], ModPolicy = ''Writers''\<rparr>) = None \<or>
      (\<exists>ct. Unmarshal_ConsensusType reference_lib
          (Value \<lparr>Version = 3, Value = [1, 200], ModPolicy = ''Writers''\<rparr>) = Some ct \<and>
        Unmarshal_Metadata reference_lib (Metadata ct) = None)"
    using decode by simp
  have fetch: "outcome (GetConfig reference_lib reference_net (Peer ''peer0'' ''org1'')
      (Orderer ''orderer'' ''ord'') ''ch'' (reference_state [1, 200])) = Inr (Some 0)"
    using reference_GetConfig [of "[1, 200]"] by simp
  have og: "Groups (ConfigGroup 0
        (Map.empty(''Orderer'' \<mapsto> ConfigGroup 0 Map.empty
           (Map.empty(''ConsensusType'' \<mapsto>
              \<lparr>Version = 3, Value = [1, 200], ModPolicy = ''Writers''\<rparr>))
           Map.empty ''Admins''))
        Map.empty Map.empty ''Admins'') ''Orderer'' =
      Some (ConfigGroup 0 Map.empty
           (Map.empty(''ConsensusType'' \<mapsto>
              \<lparr>Version = 3, Value = [1, 200], ModPolicy = ''Writers''\<rparr>))
           Map.empty ''Admins'')"
    by simp
  have cv: "Values (ConfigGroup 0 Map.empty
           (Map.empty(''ConsensusType'' \<mapsto>
              \<lparr>Version = 3, Value = [1, 200], ModPolicy = ''Writers''\<rparr>))
           Map.empty ''Admins'') ''ConsensusType'' =
      Some \<lparr>Version = 3, Value = [1, 200], ModPolicy = ''Writers''\<rparr>"
    by simp
  from decode_failure_aborts_update [OF fetch fetched og cv failing,
      where consenter = consenter_C and certificate = "[66, 49]"]
    reference_GetConfig [of "[1, 200]"] decode fetched
  show ?thesis
    by simp
qed

end
